theory Spec2Isabelle
  imports Complex_Main "HOL-Library.AList" "HOL-Library.List_Lexorder" "HOL-Library.Char_ord"
    "HOL-Library.Log_Nat"
begin

section \<open>Conventions\<close>

text \<open>
  Python floats are real numbers here. Where the arithmetic decides the next difficulty
  (the performance score, the blend and the thresholds of \<open>AdaptiveLearning\<close>) every
  operation is rounded to double precision as CPython rounds it; elsewhere a formula is
  the exact arithmetic reading of the source expression. Python integers are
  \<^typ>\<open>int\<close>. A dictionary whose keys may be absent is a record of
  \<^typ>\<open>'a option\<close> fields (\<open>d.get(k, default)\<close> is a \<open>case\<close> on the field), or an
  association list where iteration order matters.
\<close>

section \<open>Double-precision arithmetic\<close>

text \<open>
  A finite double is modelled as the real number it denotes. \<open>fl x\<close> is the double
  nearest to \<open>x\<close>: 53 significant bits, ties to the even significand, subnormal numbers
  below \<open>2 powi (- 1022)\<close>. A floating-point operation of the source is the exact
  operation followed by \<open>fl\<close>; a decimal literal \<open>0.7\<close> is \<open>fl 0.7\<close>. Infinities, NaN
  and overflow are outside the model.
\<close>

text \<open>Rounding a real to the nearest integer, a tie to the even one.\<close>

definition round_half_even :: "real \<Rightarrow> int" where
  "round_half_even x =
     (let f = \<lfloor>x\<rfloor>
      in if x - of_int f < 1 / 2 then f
         else if x - of_int f > 1 / 2 then f + 1
         else if even f then f else f + 1)"

text \<open>
  The binary exponent of a non-zero number: the \<open>e\<close> with \<open>2 powi e \<le> \<bar>x\<bar> < 2 powi (e + 1)\<close>,
  computed from the bit length of an integer part.
\<close>

definition binade :: "real \<Rightarrow> int" where
  "binade x =
     (let a = \<bar>x\<bar>
      in if 1 \<le> a then bitlen \<lfloor>a\<rfloor> - 1 else - bitlen (\<lceil>1 / a\<rceil> - 1))"

definition fl :: "real \<Rightarrow> real" where
  "fl x =
     (if x = 0 then 0
      else (let q = max (binade x) (- 1022) - 52
            in of_int (round_half_even (x / 2 powi q)) * 2 powi q))"

section \<open>adaptive\_learning.py: AdaptiveLearning\<close>

text \<open>\<open>self.difficulty_levels\<close> and its inverse \<open>self.difficulty_names\<close>.\<close>

definition difficulty_levels :: "(string \<times> int) list" where
  "difficulty_levels = [(''beginner'', 1), (''intermediate'', 2), (''advanced'', 3)]"

definition difficulty_names :: "(int \<times> string) list" where
  "difficulty_names = map (\<lambda>(k, v). (v, k)) difficulty_levels"

definition confidence_threshold :: real where
  "confidence_threshold = 0.7"

text \<open>
  \<open>_calculate_performance_score(correct_ratio, avg_response_time, confidence_score)\<close>,
  every operation rounded as CPython rounds it; the sum is evaluated from the left.
\<close>

definition calculate_performance_score :: "real \<Rightarrow> real \<Rightarrow> real \<Rightarrow> real" where
  "calculate_performance_score correct_ratio avg_response_time confidence_score =
     (let time_factor = max 0 (fl (1 - fl (avg_response_time / 60)));
          weighted_score =
            fl (fl (fl (fl 0.6 * correct_ratio) + fl (fl 0.2 * time_factor))
                + fl (fl 0.2 * confidence_score))
      in weighted_score)"

text \<open>
  The last two statements of \<open>_estimate_proficiency\<close>: the heuristic
  \<open>performance_score * (current_difficulty / 3.0)\<close> and its blend
  \<open>0.7 * predicted_proficiency + 0.3 * heuristic_proficiency\<close> with the predictor's
  output, in double precision.
\<close>

definition blended_proficiency :: "real \<Rightarrow> real \<Rightarrow> int \<Rightarrow> real" where
  "blended_proficiency predicted_proficiency performance_score current_difficulty =
     (let heuristic_proficiency = fl (performance_score * fl (of_int current_difficulty / 3.0))
      in fl (fl (fl 0.7 * predicted_proficiency) + fl (fl 0.3 * heuristic_proficiency)))"

text \<open>
  \<open>_determine_next_difficulty(proficiency, current_difficulty)\<close>. The two thresholds are
  the double products \<open>current_difficulty * self.confidence_threshold\<close> and
  \<open>(current_difficulty - 1) * self.confidence_threshold\<close>.
\<close>

definition determine_next_difficulty :: "real \<Rightarrow> int \<Rightarrow> int" where
  "determine_next_difficulty proficiency current_difficulty =
     (let move_up_threshold = fl (of_int current_difficulty * fl confidence_threshold);
          move_down_threshold = fl (of_int (current_difficulty - 1) * fl confidence_threshold)
      in if proficiency \<ge> move_up_threshold \<and> current_difficulty < 3
           then current_difficulty + 1
         else if proficiency < move_down_threshold \<and> current_difficulty > 1
           then current_difficulty - 1
         else current_difficulty)"

text \<open>\<open>_calculate_confidence(is_correct, response_time, difficulty)\<close>.\<close>

definition calculate_confidence :: "bool \<Rightarrow> real \<Rightarrow> int \<Rightarrow> real" where
  "calculate_confidence is_correct response_time difficulty =
     (if \<not> is_correct then 0.2
      else (let expected_time = 10 * of_int difficulty;
                time_factor = min 1.0 (expected_time / max 1 response_time)
            in 0.5 + (0.5 * time_factor)))"

section \<open>proficiency\_model.py: ProficiencyPredictor\<close>

text \<open>
  Exceptions are values. Every constructor stands for a class derived from Python's
  \<open>Exception\<close>, which is what \<open>except Exception\<close> and a bare \<open>except\<close> catch.
\<close>

datatype exn = TypeError | ValueError | RuntimeError string

text \<open>
  A \<open>datetime\<close>: whether it carries a time zone, and its position on the time line in
  microseconds. \<open>datetime.now()\<close> is naive; subtracting an aware value from it raises
  \<open>TypeError\<close>. The \<open>days\<close> attribute of a \<open>timedelta\<close> is the floor of the difference
  in days.
\<close>

record pydatetime =
  aware :: bool
  micros :: int

text \<open>
  What the key \<open>"timestamp"\<close> of a performance dictionary can hold: a \<open>datetime\<close>, a
  string, or a value of another type (a number, \<open>None\<close>).
\<close>

datatype timestamp_value = TsDatetime pydatetime | TsStr string | TsOther

text \<open>
  The clock and the standard library's ISO parser (\<open>None\<close>: \<open>fromisoformat\<close> raises
  \<open>ValueError\<close>) are inputs of the model.
\<close>

record clock =
  now :: int
  fromisoformat :: "string \<Rightarrow> pydatetime option"

text \<open>A performance dictionary; a field is \<open>None\<close> when the key is absent.\<close>

record perf_data =
  pd_correct_ratio :: "real option"
  pd_avg_response_time :: "real option"
  pd_confidence_score :: "real option"
  pd_difficulty :: "string option"
  pd_timestamp :: "timestamp_value option"
  pd_question_count :: "real option"
  pd_streak :: "real option"

text \<open>\<open>d.get(key, default)\<close> on such a field.\<close>

definition get_or :: "'a option \<Rightarrow> 'a \<Rightarrow> 'a" where
  "get_or field dflt = (case field of None \<Rightarrow> dflt | Some v \<Rightarrow> v)"

text \<open>\<open>(datetime.now() - timestamp).days\<close>, or the \<open>TypeError\<close> of the subtraction.\<close>

definition days_between :: "clock \<Rightarrow> pydatetime \<Rightarrow> exn + int" where
  "days_between clk ts =
     (if aware ts then Inl TypeError else Inr ((now clk - micros ts) div 86400000000))"

text \<open>
  The block of \<open>_extract_features\<close> that computes \<open>days_since\<close>: it starts at 0, is only
  touched when the key \<open>"timestamp"\<close> is present, and the \<open>try\<close> turns every exception
  into 30.
\<close>

definition days_since :: "clock \<Rightarrow> perf_data \<Rightarrow> int" where
  "days_since clk performance_data =
     (case pd_timestamp performance_data of
        None \<Rightarrow> 0
      | Some (TsDatetime ts) \<Rightarrow>
          (case days_between clk ts of Inr d \<Rightarrow> d | Inl e \<Rightarrow> 30)
      | Some (TsStr s) \<Rightarrow>
          (case fromisoformat clk s of
             None \<Rightarrow> 30
           | Some ts \<Rightarrow> (case days_between clk ts of Inr d \<Rightarrow> d | Inl e \<Rightarrow> 30))
      | Some TsOther \<Rightarrow> 0)"

definition difficulty_map :: "(string \<times> real) list" where
  "difficulty_map =
     [(''beginner'', 0.33), (''intermediate'', 0.67), (''advanced'', 1.0), (''adaptive'', 0.67)]"

text \<open>\<open>_extract_features(performance_data)\<close>: the eight features, in the source's order.\<close>

definition extract_features :: "clock \<Rightarrow> perf_data \<Rightarrow> real list" where
  "extract_features clk performance_data =
     (let correct_ratio = get_or (pd_correct_ratio performance_data) 0.5;
          avg_response_time = min 60 (get_or (pd_avg_response_time performance_data) 30) / 60.0;
          confidence_score = get_or (pd_confidence_score performance_data) 0.5;
          difficulty =
            get_or (map_of difficulty_map
                      (get_or (pd_difficulty performance_data) ''intermediate'')) 0.67;
          recency_factor = exp (- 0.05 * of_int (days_since clk performance_data));
          question_count = min 20 (get_or (pd_question_count performance_data) 5) / 20.0;
          streak = min 5 (get_or (pd_streak performance_data) 0) / 5.0
      in [correct_ratio, avg_response_time, confidence_score, difficulty, recency_factor,
          question_count, streak, correct_ratio * confidence_score])"

text \<open>
  The predictor object: the model directory, the default model and the cache
  \<open>self.user_models\<close>. The type \<open>'m\<close> is a network (a \<open>ProficiencyModel\<close> with its
  weights).
\<close>

record 'm predictor =
  model_dir :: string
  default_model :: 'm
  user_models :: "string \<times> string \<rightharpoonup> 'm"

text \<open>
  The calls into PyTorch and the file system, as inputs of the model:
  \<^item> \<open>path_exists\<close> is \<open>os.path.exists\<close>;
  \<^item> \<open>torch_load\<close> is \<open>ProficiencyModel(...)\<close> followed by
    \<open>load_state_dict(torch.load(path))\<close>;
  \<^item> \<open>fit\<close> is the body of \<open>train_model\<close> from the construction of the dataset to
    \<open>torch.save\<close>: the trained network, or the exception raised on the way;
  \<^item> \<open>forward\<close> is \<open>torch.tensor([features])\<close>, \<open>model.eval()\<close>, the forward pass and
    \<open>prediction.item()\<close>.
\<close>

record 'm torch =
  path_exists :: "string \<Rightarrow> bool"
  torch_load :: "string \<Rightarrow> exn + 'm"
  fit :: "real list list \<Rightarrow> real list \<Rightarrow> exn + 'm"
  forward :: "'m \<Rightarrow> real list \<Rightarrow> exn + real"

text \<open>
  \<open>os.path.join(a, b)\<close> on POSIX paths: an absolute \<open>b\<close> replaces \<open>a\<close>, and a
  separator is inserted unless \<open>a\<close> is empty or ends with one.
\<close>

definition os_path_join :: "string \<Rightarrow> string \<Rightarrow> string" where
  "os_path_join a b =
     (if (case b of [] \<Rightarrow> False | c # rest \<Rightarrow> c = CHR ''/'') then b
      else if a = [] \<or> last a = CHR ''/'' then a @ b
      else a @ ''/'' @ b)"

definition get_model_path :: "'m predictor \<Rightarrow> string \<Rightarrow> string \<Rightarrow> string" where
  "get_model_path self user_id topic =
     os_path_join (model_dir self) (user_id @ ''_'' @ topic @ ''_model.pt'')"

text \<open>\<open>_load_model(user_id, topic)\<close>: the cache first, then the disk; a failed load is \<open>None\<close>.\<close>

definition load_model ::
  "'m torch \<Rightarrow> 'm predictor \<Rightarrow> string \<Rightarrow> string \<Rightarrow> 'm option \<times> 'm predictor" where
  "load_model t self user_id topic =
     (case user_models self (user_id, topic) of
        Some model \<Rightarrow> (Some model, self)
      | None \<Rightarrow>
          (let model_path = get_model_path self user_id topic
           in if path_exists t model_path
              then (case torch_load t model_path of
                      Inr model \<Rightarrow>
                        (Some model,
                         self\<lparr>user_models := (user_models self)((user_id, topic) \<mapsto> model)\<rparr>)
                    | Inl e \<Rightarrow> (None, self))
              else (None, self)))"

text \<open>
  \<open>train_model(user_id, topic, performance_history, known_proficiency)\<close>. The length
  test is outside the \<open>try\<close>; everything after it is inside.
\<close>

definition train_model ::
  "clock \<Rightarrow> 'm torch \<Rightarrow> 'm predictor \<Rightarrow> string \<Rightarrow> string \<Rightarrow> perf_data list \<Rightarrow>
     real list option \<Rightarrow> bool \<times> 'm predictor" where
  "train_model clk t self user_id topic performance_history known_proficiency =
     (if length performance_history < 3 then (False, self)
      else
        (let features = map (extract_features clk) performance_history;
             estimated =
               map (\<lambda>perf. get_or (pd_correct_ratio perf) 0.5 *
                             (0.5 + 0.5 * get_or (pd_confidence_score perf) 0.5))
                   performance_history;
             labels =
               (case known_proficiency of
                  None \<Rightarrow> estimated
                | Some known \<Rightarrow>
                    if known \<noteq> [] \<and> length known = length performance_history
                    then known else estimated)
         in case fit t features labels of
              Inr model \<Rightarrow>
                (True, self\<lparr>user_models := (user_models self)((user_id, topic) \<mapsto> model)\<rparr>)
            | Inl e \<Rightarrow> (False, self)))"

text \<open>
  The \<open>try\<close> block of \<open>predict_proficiency\<close>. \<open>historical_performance\<close> is \<open>None\<close> when
  the caller passes nothing.
\<close>

definition predict_proficiency_try ::
  "clock \<Rightarrow> 'm torch \<Rightarrow> 'm predictor \<Rightarrow> string \<Rightarrow> string \<Rightarrow> perf_data \<Rightarrow>
     perf_data list option \<Rightarrow> (exn + real) \<times> 'm predictor" where
  "predict_proficiency_try clk t self user_id topic current_performance historical_performance =
     (let features = extract_features clk current_performance;
          (model, self1) = load_model t self user_id topic;
          (model, self2) =
            (case (model, historical_performance) of
               (None, Some history) \<Rightarrow>
                 if history \<noteq> [] \<and> length history \<ge> 3
                 then (let (success, self') =
                             train_model clk t self1 user_id topic history None
                       in if success then load_model t self' user_id topic
                          else (None, self'))
                 else (None, self1)
             | _ \<Rightarrow> (model, self1));
          model = (case model of None \<Rightarrow> default_model self2 | Some m \<Rightarrow> m)
      in (forward t model features, self2))"

text \<open>
  \<open>predict_proficiency\<close>: the \<open>try\<close> block, and \<open>except Exception: return 0.5\<close>. The
  result keeps the sum type, so that a raise would be visible as \<open>Inl\<close>.
\<close>

definition predict_proficiency ::
  "clock \<Rightarrow> 'm torch \<Rightarrow> 'm predictor \<Rightarrow> string \<Rightarrow> string \<Rightarrow> perf_data \<Rightarrow>
     perf_data list option \<Rightarrow> (exn + real) \<times> 'm predictor" where
  "predict_proficiency clk t self user_id topic current_performance historical_performance =
     (case predict_proficiency_try clk t self user_id topic current_performance
             historical_performance of
        (Inr proficiency, self') \<Rightarrow> (Inr proficiency, self')
      | (Inl e, self') \<Rightarrow> (Inr 0.5, self'))"

section \<open>adaptive\_learning.py: the path through the predictor\<close>

text \<open>
  The dictionary \<open>current_performance\<close> that \<open>_estimate_proficiency\<close> builds for the
  predictor: the performance score as \<open>correct_ratio\<close>, the difficulty name and, when
  there is a history, the streak of trailing records above 0.7, the question count of
  the last three records and the mean response time of the records that have one. The
  counts are whole numbers; the mean \<open>sum(avg_times) / len(avg_times)\<close> is taken exactly
  (the rounding of \<open>sum\<close> depends on the interpreter version, and the value only reaches
  the network).
\<close>

definition estimate_current_performance ::
  "real \<Rightarrow> int \<Rightarrow> perf_data list option \<Rightarrow> perf_data" where
  "estimate_current_performance performance_score current_difficulty historical_performance =
     (let current_performance =
            \<lparr>pd_correct_ratio = Some performance_score,
             pd_avg_response_time = None,
             pd_confidence_score = None,
             pd_difficulty =
               Some (get_or (map_of difficulty_names current_difficulty) ''intermediate''),
             pd_timestamp = None,
             pd_question_count = None,
             pd_streak = None\<rparr>
      in case historical_performance of
           None \<Rightarrow> current_performance
         | Some history \<Rightarrow>
             if history = [] then current_performance
             else
               (let streak =
                      length (takeWhile (\<lambda>hist. get_or (pd_correct_ratio hist) 0 > 0.7)
                                (rev history));
                    question_count =
                      sum_list (map (\<lambda>hist. get_or (pd_question_count hist) 5)
                                  (drop (length history - 3) history));
                    with_counts =
                      current_performance
                        \<lparr>pd_streak := Some (of_nat streak),
                         pd_question_count := Some question_count\<rparr>;
                    avg_times =
                      map (\<lambda>hist. get_or (pd_avg_response_time hist) 30)
                        (filter (\<lambda>hist. pd_avg_response_time hist \<noteq> None) history)
                in if list_ex (\<lambda>hist. pd_avg_response_time hist \<noteq> None) history
                   then with_counts
                          \<lparr>pd_avg_response_time :=
                             Some (sum_list avg_times / of_nat (length avg_times))\<rparr>
                   else with_counts))"

text \<open>
  \<open>_estimate_proficiency\<close>: builds that dictionary, asks the predictor, and blends its
  answer with the heuristic.
\<close>

definition estimate_proficiency ::
  "clock \<Rightarrow> 'm torch \<Rightarrow> 'm predictor \<Rightarrow> string \<Rightarrow> string \<Rightarrow> real \<Rightarrow> int \<Rightarrow>
     perf_data list option \<Rightarrow> (exn + real) \<times> 'm predictor" where
  "estimate_proficiency clk t predictor user_id topic performance_score current_difficulty
       historical_performance =
     (case predict_proficiency clk t predictor user_id topic
             (estimate_current_performance performance_score current_difficulty
                historical_performance)
             historical_performance of
        (Inl e, predictor') \<Rightarrow> (Inl e, predictor')
      | (Inr predicted_proficiency, predictor') \<Rightarrow>
          (Inr (blended_proficiency predicted_proficiency performance_score
                  current_difficulty),
           predictor'))"

text \<open>\<open>calculate_next_difficulty(user_id, topic, current_performance, historical_performance)\<close>.\<close>

definition calculate_next_difficulty ::
  "clock \<Rightarrow> 'm torch \<Rightarrow> 'm predictor \<Rightarrow> string \<Rightarrow> string \<Rightarrow> perf_data \<Rightarrow>
     perf_data list option \<Rightarrow> (exn + string) \<times> 'm predictor" where
  "calculate_next_difficulty clk t predictor user_id topic current_performance
       historical_performance =
     (let correct_ratio = get_or (pd_correct_ratio current_performance) 0.5;
          avg_response_time = get_or (pd_avg_response_time current_performance) 30;
          confidence_score = get_or (pd_confidence_score current_performance) 0.5;
          current_difficulty =
            get_or (map_of difficulty_levels
                      (get_or (pd_difficulty current_performance) ''intermediate'')) 2;
          performance_score =
            calculate_performance_score correct_ratio avg_response_time confidence_score
      in case estimate_proficiency clk t predictor user_id topic performance_score
                current_difficulty historical_performance of
           (Inl e, predictor') \<Rightarrow> (Inl e, predictor')
         | (Inr proficiency, predictor') \<Rightarrow>
             (Inr (get_or (map_of difficulty_names
                             (determine_next_difficulty proficiency current_difficulty))
                     ''intermediate''),
              predictor'))"

section \<open>cold\_start.py: ColdStartSolver\<close>

subsection \<open>Strings and Python list operations\<close>

text \<open>
  \<open>str.lower()\<close> on the ASCII letters; every other byte is kept. \<open>t in topic\<close> on two
  strings is the contiguous-substring test.
\<close>

definition lower_char :: "char \<Rightarrow> char" where
  "lower_char c =
     get_or (map_of (zip ''ABCDEFGHIJKLMNOPQRSTUVWXYZ'' ''abcdefghijklmnopqrstuvwxyz'') c) c"

definition lower :: "string \<Rightarrow> string" where
  "lower s = map lower_char s"

fun starts_with :: "string \<Rightarrow> string \<Rightarrow> bool" where
  "starts_with s [] = True"
| "starts_with [] (c # t) = False"
| "starts_with (d # s) (c # t) = (d = c \<and> starts_with s t)"

fun is_substring :: "string \<Rightarrow> string \<Rightarrow> bool" where
  "is_substring t [] = (t = [])"
| "is_substring t (c # s) = (starts_with (c # s) t \<or> is_substring t s)"

text \<open>The slice \<open>xs[:n]\<close>: a negative \<open>n\<close> counts from the end.\<close>

definition slice_to :: "int \<Rightarrow> 'a list \<Rightarrow> 'a list" where
  "slice_to n xs = (if 0 \<le> n then take (nat n) xs else take (length xs - nat (- n)) xs)"

text \<open>
  \<open>sorted(items, key=k, reverse=True)\<close> and \<open>list.sort(key=k, reverse=True)\<close>: descending
  and stable, so items with equal keys keep their order.
\<close>

definition sorted_desc :: "('a \<Rightarrow> real) \<Rightarrow> 'a list \<Rightarrow> 'a list" where
  "sorted_desc k xs = sort_key (\<lambda>x. - k x) xs"

text \<open>
  \<open>collections.Counter(xs)\<close> as the dictionary it builds, keys in order of first
  occurrence, and \<open>most_common(n)\<close>: the \<open>n\<close> largest counts, ties in that order.
\<close>

definition counter :: "'a list \<Rightarrow> ('a \<times> nat) list" where
  "counter xs = fold (\<lambda>x c. AList.update x (get_or (map_of c x) 0 + 1) c) xs []"

definition most_common :: "nat \<Rightarrow> ('a \<times> nat) list \<Rightarrow> ('a \<times> nat) list" where
  "most_common n c = take n (sorted_desc (\<lambda>(x, k). real k) c)"

subsection \<open>Taxonomy and difficulty steps\<close>

definition knowledge_domains :: "(string \<times> string list) list" where
  "knowledge_domains =
     [(''mathematics'', [''algebra'', ''calculus'', ''statistics'', ''geometry'']),
      (''science'', [''physics'', ''chemistry'', ''biology'', ''astronomy'']),
      (''humanities'', [''history'', ''literature'', ''philosophy'', ''arts'']),
      (''languages'', [''english'', ''spanish'', ''french'', ''german'']),
      (''technology'',
         [''programming'', ''data_science'', ''web_development'', ''cybersecurity''])]"

text \<open>\<open>sorted(self.knowledge_domains.keys())\<close>: strings compare lexicographically.\<close>

definition sorted_domain_keys :: "string list" where
  "sorted_domain_keys = sort (map fst knowledge_domains)"

text \<open>\<open>_map_topic_to_domain(topic)\<close>: exact matches first, then substring matches.\<close>

definition map_topic_to_domain :: "string \<Rightarrow> string" where
  "map_topic_to_domain topic0 =
     (let topic = lower topic0
      in case find (\<lambda>(domain, topics). topic = domain \<or> topic \<in> set topics)
                knowledge_domains of
           Some (domain, topics) \<Rightarrow> domain
         | None \<Rightarrow>
             (case find (\<lambda>(domain, topics).
                           list_ex (\<lambda>t. is_substring t topic) (topics @ [domain]))
                     knowledge_domains of
                Some (domain, topics) \<Rightarrow> domain
              | None \<Rightarrow> ''general''))"


definition increase_difficulty :: "string \<Rightarrow> string" where
  "increase_difficulty difficulty =
     (if difficulty = ''beginner'' then ''intermediate''
      else if difficulty = ''intermediate'' then ''advanced''
      else ''advanced'')"

definition decrease_difficulty :: "string \<Rightarrow> string" where
  "decrease_difficulty difficulty =
     (if difficulty = ''advanced'' then ''intermediate''
      else if difficulty = ''intermediate'' then ''beginner''
      else ''beginner'')"

definition difficulty_to_number :: "string \<Rightarrow> int" where
  "difficulty_to_number difficulty =
     get_or (map_of [(''beginner'', 1), (''intermediate'', 2), (''advanced'', 3)] difficulty) 2"

text \<open>\<open>_calculate_cosine_similarity(vec1, vec2)\<close>.\<close>

definition calculate_cosine_similarity :: "real list \<Rightarrow> real list \<Rightarrow> real" where
  "calculate_cosine_similarity vec1 vec2 =
     (let dot_product = sum_list (map (\<lambda>(a, b). a * b) (zip vec1 vec2));
          norm1 = sqrt (sum_list (map (\<lambda>a. a * a) vec1));
          norm2 = sqrt (sum_list (map (\<lambda>b. b * b) vec2))
      in if norm1 = 0 \<or> norm2 = 0 then 0 else dot_product / (norm1 * norm2))"

subsection \<open>Profiles and the profile store\<close>

record background_info =
  bg_education_level :: "string option"
  bg_interests :: "string list option"
  bg_prior_knowledge :: "(string \<times> string) list option"
  bg_learning_goals :: "string list option"

text \<open>An entry of \<open>quiz_history\<close>, as \<open>update_profile_with_quiz\<close> appends it.\<close>

record quiz_entry =
  qe_quiz_id :: "string option"
  qe_topic :: string
  qe_score :: real
  qe_difficulty :: string
  qe_timestamp :: string

text \<open>The argument \<open>quiz_result\<close>; a field is \<open>None\<close> when the key is absent.\<close>

record quiz_result =
  qr_quiz_id :: "string option"
  qr_topic :: "string option"
  qr_score :: "real option"
  qr_difficulty :: "string option"

record recommendation =
  rec_type :: string
  rec_name :: string
  rec_parent_domain :: "string option"
  rec_difficulty :: string
  rec_reason :: string

record profile =
  pr_user_id :: string
  pr_created_at :: string
  pr_background :: background_info
  pr_base_difficulty :: string
  pr_relevant_domains :: "string list"
  pr_domain_difficulties :: "(string \<times> string) list"
  pr_recommendations :: "recommendation list"
  pr_profile_confidence :: real
  pr_quiz_history :: "quiz_entry list"

text \<open>
  The solver's state: \<open>files\<close> is the directory \<open>data_dir\<close>, giving for a user id the
  profile that \<open><user_id>.json\<close> parses to (\<open>None\<close>: no file, or a file that does not
  load); \<open>user_profiles\<close> is the dictionary \<open>self.user_profiles\<close>, in insertion order.
\<close>

record solver =
  files :: "string \<rightharpoonup> profile"
  user_profiles :: "(string \<times> profile) list"

text \<open>
  What the world decides during a call: the clock's \<open>isoformat()\<close>, the choice of
  \<open>random.sample(population, k)\<close>, and the outcome of writing the profile file
  (written; not written because \<open>open\<close> failed; left unreadable because the write broke
  off).
\<close>

datatype write_outcome = Written | NotWritten | Truncated

record world =
  now_iso :: string
  sample :: "string list \<Rightarrow> nat \<Rightarrow> string list"
  write_outcome :: write_outcome

definition load_user_profile :: "solver \<Rightarrow> string \<Rightarrow> profile option" where
  "load_user_profile self uid = files self uid"

text \<open>\<open>_save_user_profile\<close>: the memory copy is updated only after a complete write.\<close>

definition save_user_profile :: "world \<Rightarrow> solver \<Rightarrow> string \<Rightarrow> profile \<Rightarrow> bool \<times> solver" where
  "save_user_profile w self uid prof =
     (case write_outcome w of
        Written \<Rightarrow>
          (True, self\<lparr>files := (files self)(uid \<mapsto> prof),
                     user_profiles := AList.update uid prof (user_profiles self)\<rparr>)
      | NotWritten \<Rightarrow> (False, self)
      | Truncated \<Rightarrow> (False, self\<lparr>files := (files self)(uid := None)\<rparr>))"

subsection \<open>Similar users\<close>

text \<open>
  The feature vector of a profile in \<open>get_similar_users\<close>: the difficulty number per
  domain, then the interest indicator per domain, both in sorted domain order.
\<close>

definition user_feature_vector :: "profile \<Rightarrow> real list" where
  "user_feature_vector uprof =
     (let interests = get_or (bg_interests (pr_background uprof)) []
      in map (\<lambda>domain. of_int (difficulty_to_number
                 (get_or (map_of (pr_domain_difficulties uprof) domain) ''intermediate'')))
           sorted_domain_keys
         @ map (\<lambda>domain. if domain \<in> set interests then 1 else 0) sorted_domain_keys)"

text \<open>\<open>get_similar_users(user_id, n)\<close>.\<close>

definition get_similar_users :: "solver \<Rightarrow> string \<Rightarrow> int \<Rightarrow> string list" where
  "get_similar_users self uid n =
     (case load_user_profile self uid of
        None \<Rightarrow> []
      | Some prof \<Rightarrow>
          if length (user_profiles self) < 5 then []
          else
            (let user_features =
                   fold (\<lambda>(u, uprof) acc.
                           if u = uid then acc
                           else AList.update u (user_feature_vector uprof) acc)
                     (user_profiles self) [];
                 target_features = user_feature_vector prof;
                 similarities =
                   fold (\<lambda>(u, features) acc.
                           AList.update u
                             (calculate_cosine_similarity target_features features) acc)
                     user_features [];
                 similar_users = slice_to n (sorted_desc snd similarities)
             in map fst similar_users))"

subsection \<open>Building and updating a profile\<close>



text \<open>\<open>_generate_initial_recommendations(domains, domain_difficulties)\<close>.\<close>

definition generate_initial_recommendations ::
  "world \<Rightarrow> string list \<Rightarrow> (string \<times> string) list \<Rightarrow> recommendation list" where
  "generate_initial_recommendations w domains difficulties =
     concat (map (\<lambda>domain.
        let difficulty = get_or (map_of difficulties domain) ''intermediate'';
            domain_topics = get_or (map_of knowledge_domains domain) [];
            selected_topics =
              (if domain_topics \<noteq> []
               then sample w domain_topics (min 2 (length domain_topics)) else [])
        in \<lparr>rec_type = ''topic'', rec_name = domain, rec_parent_domain = None,
             rec_difficulty = difficulty,
             rec_reason = ''Based on your interests and background in '' @ domain\<rparr>
           # map (\<lambda>topic.
                    \<lparr>rec_type = ''subtopic'', rec_name = topic,
                     rec_parent_domain = Some domain, rec_difficulty = difficulty,
                     rec_reason = ''Specific topic in '' @ domain
                                    @ '' that matches your profile''\<rparr>)
               selected_topics)
       domains)"

text \<open>
  \<open>_generate_recommendations(profile)\<close>: the domain recommendations, the "mastery"
  ones from the user's own history, the "collaborative" ones from similar users, cut
  to ten.
\<close>

definition generate_recommendations :: "world \<Rightarrow> solver \<Rightarrow> profile \<Rightarrow> recommendation list" where
  "generate_recommendations w self prof =
     (let recs = generate_initial_recommendations w (pr_relevant_domains prof)
                   (pr_domain_difficulties prof);
          good_topics =
            map qe_topic (filter (\<lambda>quiz. qe_score quiz > 70) (pr_quiz_history prof));
          recs =
            fold (\<lambda>(topic, count) acc.
                    if count > 1
                    then (let domain = map_topic_to_domain topic;
                              difficulty =
                                get_or (map_of (pr_domain_difficulties prof) domain)
                                  ''intermediate'';
                              advanced_difficulty = increase_difficulty difficulty
                          in acc @ [\<lparr>rec_type = ''mastery'', rec_name = topic,
                                     rec_parent_domain = None,
                                     rec_difficulty = advanced_difficulty,
                                     rec_reason = ''You've shown proficiency in '' @ topic\<rparr>])
                    else acc)
              (most_common 2 (counter good_topics)) recs;
          similar_users = get_similar_users self (pr_user_id prof) 5;
          similar_user_topics =
            concat (map (\<lambda>u. case load_user_profile self u of
                                None \<Rightarrow> []
                              | Some similar_profile \<Rightarrow>
                                  map qe_topic (filter (\<lambda>quiz. qe_score quiz > 70)
                                                  (pr_quiz_history similar_profile)))
                      similar_users);
          recs =
            fold (\<lambda>(topic, count) acc.
                    if count > 1 \<and> \<not> list_ex (\<lambda>r. rec_name r = topic) acc
                    then (let domain = map_topic_to_domain topic;
                              difficulty =
                                get_or (map_of (pr_domain_difficulties prof) domain)
                                  ''intermediate''
                          in acc @ [\<lparr>rec_type = ''collaborative'', rec_name = topic,
                                     rec_parent_domain = None, rec_difficulty = difficulty,
                                     rec_reason =
                                       ''Similar users performed well in '' @ topic\<rparr>])
                    else acc)
              (most_common 2 (counter similar_user_topics)) recs
      in take 10 recs)"


text \<open>
  The step of \<open>update_profile_with_quiz\<close> on the domain difficulties (the \<open>if domain in
  profile["domain_difficulties"]\<close> block).
\<close>

definition adjust_domain_difficulty ::
  "string \<Rightarrow> real \<Rightarrow> string \<Rightarrow> (string \<times> string) list \<Rightarrow> (string \<times> string) list" where
  "adjust_domain_difficulty domain score difficulty difficulties =
     (case map_of difficulties domain of
        None \<Rightarrow> difficulties
      | Some current_difficulty \<Rightarrow>
          if score > 80 \<and> difficulty = current_difficulty
            then AList.update domain (increase_difficulty current_difficulty) difficulties
          else if score < 40 \<and> difficulty = current_difficulty
            then AList.update domain (decrease_difficulty current_difficulty) difficulties
          else difficulties)"

text \<open>
  \<open>update_profile_with_quiz(user_id, quiz_result)\<close>: \<open>None\<close> when no profile loads,
  otherwise the updated profile, returned whether or not the save succeeded.
\<close>

definition update_profile_with_quiz ::
  "world \<Rightarrow> solver \<Rightarrow> string \<Rightarrow> quiz_result \<Rightarrow> profile option \<times> solver" where
  "update_profile_with_quiz w self uid quiz =
     (case load_user_profile self uid of
        None \<Rightarrow> (None, self)
      | Some prof \<Rightarrow>
          (let topic = get_or (qr_topic quiz) ''general'';
               score = get_or (qr_score quiz) 0;
               difficulty = get_or (qr_difficulty quiz) ''intermediate'';
               prof = prof\<lparr>pr_quiz_history :=
                        pr_quiz_history prof @
                          [\<lparr>qe_quiz_id = qr_quiz_id quiz, qe_topic = topic,
                            qe_score = score, qe_difficulty = difficulty,
                            qe_timestamp = now_iso w\<rparr>]\<rparr>;
               domain = map_topic_to_domain topic;
               prof = prof\<lparr>pr_domain_difficulties :=
                        adjust_domain_difficulty domain score difficulty
                          (pr_domain_difficulties prof)\<rparr>;
               prof = prof\<lparr>pr_profile_confidence :=
                        min 0.95 (pr_profile_confidence prof + 0.05)\<rparr>;
               prof = prof\<lparr>pr_recommendations := generate_recommendations w self prof\<rparr>
           in (Some prof, snd (save_user_profile w self uid prof))))"


subsection \<open>Recommending content to a new user\<close>

text \<open>A content item; a field is \<open>None\<close> when the key is absent.\<close>

record document =
  doc_id :: string
  doc_title :: "string option"
  doc_description :: "string option"
  doc_tags :: "string list option"
  doc_topic :: "string option"
  doc_difficulty :: "string option"

text \<open>
  The third parameter of \<open>recommend_content_for_new_user\<close> is annotated \<open>int\<close>, and
  Python does not enforce the annotation: the callers pass an integer or a list of quiz
  entries. Comparing an integer with a list raises \<open>TypeError\<close>.
\<close>

datatype py_arg = PyInt int | PyList "quiz_entry list"

text \<open>\<open>recommend_content_for_new_user(user_id, available_documents, n_recommendations)\<close>.\<close>

definition recommend_content_for_new_user ::
  "solver \<Rightarrow> string \<Rightarrow> document list \<Rightarrow> py_arg \<Rightarrow> exn + document list" where
  "recommend_content_for_new_user self uid available_documents n_recommendations =
     (case load_user_profile self uid of
        None \<Rightarrow> Inr []
      | Some prof \<Rightarrow>
          (let relevant_domains = pr_relevant_domains prof;
               difficulties = pr_domain_difficulties prof;
               relevant_docs =
                 concat (map (\<lambda>doc.
                    let doc_domain = map_topic_to_domain (get_or (doc_topic doc) ''general'')
                    in if doc_domain \<in> set relevant_domains
                       then (let doc_diff = get_or (doc_difficulty doc) ''intermediate'';
                                 domain_diff =
                                   get_or (map_of difficulties doc_domain) ''intermediate'';
                                 relevance =
                                   (if doc_diff = domain_diff then 1.0 * 1.2
                                    else if difficulty_to_number doc_diff
                                              > difficulty_to_number domain_diff
                                      then 1.0 * 0.8
                                    else 1.0)
                             in [(doc, relevance :: real)])
                       else [])
                   available_documents)
           in case n_recommendations of
                PyList quizzes \<Rightarrow> Inl TypeError
              | PyInt n \<Rightarrow>
                  (let relevant_docs =
                         (if int (length relevant_docs) < n
                          then fold (\<lambda>doc acc.
                                       if doc \<in> set (map fst acc) then acc
                                       else acc @ [(doc, 0.5)])
                                 available_documents relevant_docs
                          else relevant_docs)
                   in Inr (map fst (slice_to n (sorted_desc snd relevant_docs))))))"

section \<open>recommendation\_system.py: RecommendationSystem\<close>

text \<open>
  \<open>get_recommendations(user_id, available_content, n_recommendations)\<close>. The first
  parameter of the model is the four-strategy path (everything from
  \<open>_content_based_recommendations\<close> to the final loop), which calls scikit-learn and
  \<open>random.sample\<close>; the branching in front of it is the source's.
\<close>

definition get_recommendations ::
  "(solver \<Rightarrow> string \<Rightarrow> document list \<Rightarrow> quiz_entry list \<Rightarrow> int \<Rightarrow> exn + document list) \<Rightarrow>
     solver \<Rightarrow> string \<Rightarrow> document list \<Rightarrow> int \<Rightarrow> exn + document list" where
  "get_recommendations four_strategies cold_start uid available_content n_recommendations =
     (case load_user_profile cold_start uid of
        None \<Rightarrow>
          (case recommend_content_for_new_user cold_start uid available_content (PyInt 5) of
             Inl e \<Rightarrow> Inl e
           | Inr docs \<Rightarrow> Inr (slice_to n_recommendations docs))
      | Some user_profile \<Rightarrow>
          (let history = pr_quiz_history user_profile
           in if length history < 3
              then (case recommend_content_for_new_user cold_start uid available_content
                           (PyList history) of
                      Inl e \<Rightarrow> Inl e
                    | Inr docs \<Rightarrow> Inr (slice_to n_recommendations docs))
              else four_strategies cold_start uid available_content history
                     n_recommendations))"

section \<open>Example inputs\<close>

text \<open>Concrete inputs on which the theorems below are evaluated.\<close>

definition no_parse :: "string \<Rightarrow> pydatetime option" where
  "no_parse s = None"

definition example_clock :: clock where
  "example_clock = \<lparr>now = 0, fromisoformat = no_parse\<rparr>"

definition empty_performance :: perf_data where
  "empty_performance =
     \<lparr>pd_correct_ratio = None, pd_avg_response_time = None, pd_confidence_score = None,
      pd_difficulty = None, pd_timestamp = None, pd_question_count = None,
      pd_streak = None\<rparr>"

definition garbled_performance :: perf_data where
  "garbled_performance = empty_performance\<lparr>pd_timestamp := Some (TsStr ''yesterday'')\<rparr>"


definition fresh_predictor :: "unit predictor" where
  "fresh_predictor = \<lparr>model_dir = ''./models'', default_model = (), user_models = Map.empty\<rparr>"

definition steady_torch :: "unit torch" where
  "steady_torch =
     \<lparr>path_exists = (\<lambda>path. False),
      torch_load = (\<lambda>path. Inl (RuntimeError ''load'')),
      fit = (\<lambda>features labels. Inl (RuntimeError ''fit'')),
      forward = (\<lambda>model features. Inr 0.75)\<rparr>"



definition record_of :: "real \<Rightarrow> real \<Rightarrow> real option \<Rightarrow> perf_data" where
  "record_of ratio questions seconds =
     empty_performance
       \<lparr>pd_correct_ratio := Some ratio, pd_question_count := Some questions,
        pd_avg_response_time := seconds\<rparr>"

definition example_history :: "perf_data list" where
  "example_history =
     [record_of 0.9 10 (Some 20), record_of 0.5 8 None, record_of 0.8 6 (Some 40),
      record_of 0.9 4 None]"

definition example_profile :: profile where
  "example_profile =
     \<lparr>pr_user_id = ''u1'', pr_created_at = ''2024-01-01T00:00:00'',
      pr_background =
        \<lparr>bg_education_level = Some ''high_school'', bg_interests = Some [''algebra''],
         bg_prior_knowledge = None, bg_learning_goals = None\<rparr>,
      pr_base_difficulty = ''intermediate'', pr_relevant_domains = [''mathematics''],
      pr_domain_difficulties = [(''mathematics'', ''intermediate'')],
      pr_recommendations = [], pr_profile_confidence = 0.6, pr_quiz_history = []\<rparr>"

definition example_solver :: solver where
  "example_solver =
     \<lparr>files = [''u1'' \<mapsto> example_profile], user_profiles = [(''u1'', example_profile)]\<rparr>"


definition example_world :: world where
  "example_world =
     \<lparr>now_iso = ''2024-02-01T00:00:00'', sample = (\<lambda>population k. take k population),
      write_outcome = Written\<rparr>"


definition quiz_of :: "string \<Rightarrow> real \<Rightarrow> string \<Rightarrow> quiz_result" where
  "quiz_of topic score difficulty =
     \<lparr>qr_quiz_id = Some ''q1'', qr_topic = Some topic, qr_score = Some score,
      qr_difficulty = Some difficulty\<rparr>"

definition example_document :: document where
  "example_document =
     \<lparr>doc_id = ''d1'', doc_title = Some ''Linear equations'', doc_description = None,
      doc_tags = None, doc_topic = Some ''algebra'', doc_difficulty = Some ''intermediate''\<rparr>"

definition no_blend ::
  "solver \<Rightarrow> string \<Rightarrow> document list \<Rightarrow> quiz_entry list \<Rightarrow> int \<Rightarrow> exn + document list" where
  "no_blend cold_start uid available_content history n = Inr []"

definition five_users :: solver where
  "five_users =
     \<lparr>files = [''u1'' \<mapsto> example_profile, ''u2'' \<mapsto> example_profile\<lparr>pr_user_id := ''u2''\<rparr>],
      user_profiles =
        [(''u1'', example_profile),
         (''u2'', example_profile\<lparr>pr_user_id := ''u2''\<rparr>),
         (''u3'', example_profile\<lparr>pr_user_id := ''u3''\<rparr>),
         (''u4'', example_profile\<lparr>pr_user_id := ''u4''\<rparr>),
         (''u5'', example_profile\<lparr>pr_user_id := ''u5''\<rparr>)]\<rparr>"

section \<open>Properties of double-precision rounding\<close>

text \<open>Rounding to an integer fixes the integers and is monotone.\<close>

lemma rhe_int: "round_half_even (of_int n) = n"
  by (simp add: round_half_even_def)

lemma rhe_cases: "round_half_even x = \<lfloor>x\<rfloor> \<or> round_half_even x = \<lfloor>x\<rfloor> + 1"
  by (simp add: round_half_even_def Let_def)

lemma rhe_mono: "x \<le> y \<Longrightarrow> round_half_even x \<le> round_half_even y"
proof -
  assume xy: "x \<le> y"
  then have fg: "\<lfloor>x\<rfloor> \<le> \<lfloor>y\<rfloor>" by (rule floor_mono)
  show ?thesis
  proof (cases "\<lfloor>x\<rfloor> = \<lfloor>y\<rfloor>")
    case True
    with xy show ?thesis
      by (auto simp: round_half_even_def Let_def)
  next
    case False
    with fg have "\<lfloor>x\<rfloor> + 1 \<le> \<lfloor>y\<rfloor>" by simp
    moreover have "round_half_even x \<le> \<lfloor>x\<rfloor> + 1" using rhe_cases [of x] by auto
    moreover have "\<lfloor>y\<rfloor> \<le> round_half_even y" using rhe_cases [of y] by auto
    ultimately show ?thesis by linarith
  qed
qed

text \<open>The computed exponent is the binary exponent.\<close>

lemma binade_bounds:
  assumes "x \<noteq> 0"
  shows "2 powi binade x \<le> \<bar>x\<bar> \<and> \<bar>x\<bar> < 2 powi (binade x + 1)"
proof (cases "1 \<le> \<bar>x\<bar>")
  case True
  define n where "n = \<lfloor>\<bar>x\<bar>\<rfloor>"
  have n1: "1 \<le> n" using True by (simp add: n_def le_floor_iff)
  then have n0: "0 < n" by simp
  have b: "binade x = bitlen n - 1" using True by (simp add: binade_def n_def)
  have b1: "1 \<le> bitlen n" using n0 by (simp add: bitlen_alt_def)
  from bitlen_bounds [OF n0] have lo: "2 ^ nat (bitlen n - 1) \<le> n" and hi: "n < 2 ^ nat (bitlen n)"
    by simp_all
  have "(2::real) powi (bitlen n - 1) = 2 ^ nat (bitlen n - 1)"
    using b1 by (simp add: power_int_def)
  also have "\<dots> \<le> of_int n" using lo by (metis of_int_le_iff of_int_numeral of_int_power)
  also have "\<dots> \<le> \<bar>x\<bar>" by (simp add: n_def)
  finally have l: "2 powi (bitlen n - 1) \<le> \<bar>x\<bar>" .
  have "n + 1 \<le> 2 ^ nat (bitlen n)" using hi by simp
  then have "of_int (n + 1) \<le> (2::real) ^ nat (bitlen n)"
    by (metis of_int_le_iff of_int_numeral of_int_power)
  moreover have "\<bar>x\<bar> < of_int (n + 1)" unfolding n_def by linarith
  moreover have "(2::real) powi (bitlen n - 1 + 1) = 2 ^ nat (bitlen n)"
    using b1 by (simp add: power_int_def)
  ultimately have h: "\<bar>x\<bar> < 2 powi (bitlen n - 1 + 1)" by simp
  from l h show ?thesis unfolding b by simp
next
  case False
  define a where "a = \<bar>x\<bar>"
  have a0: "0 < a" and a1: "a < 1" using assms False by (simp_all add: a_def)
  define y where "y = 1 / a"
  have y1: "1 < y" using a0 a1 by (simp add: y_def)
  define m where "m = \<lceil>y\<rceil> - 1"
  have m1: "1 \<le> m" using y1 unfolding m_def by linarith
  then have m0: "0 < m" by simp
  have b: "binade x = - bitlen m" using False by (simp add: binade_def m_def y_def a_def)
  have b1: "1 \<le> bitlen m" using m0 by (simp add: bitlen_alt_def)
  from bitlen_bounds [OF m0] have lo: "2 ^ nat (bitlen m - 1) \<le> m" and hi: "m < 2 ^ nat (bitlen m)"
    by simp_all
  have my: "of_int m < y" unfolding m_def by linarith
  have ym: "y \<le> of_int (m + 1)" unfolding m_def by simp
  have "m + 1 \<le> 2 ^ nat (bitlen m)" using hi by simp
  then have "of_int (m + 1) \<le> (2::real) ^ nat (bitlen m)"
    by (metis of_int_le_iff of_int_numeral of_int_power)
  with ym have yhi: "y \<le> 2 ^ nat (bitlen m)" by linarith
  have "(2::real) ^ nat (bitlen m - 1) \<le> of_int m"
    using lo by (metis of_int_le_iff of_int_numeral of_int_power)
  with my have ylo: "2 ^ nat (bitlen m - 1) < y" by linarith
  have p1: "(2::real) powi (- bitlen m) = 1 / 2 ^ nat (bitlen m)"
    using b1 by (simp add: power_int_def field_simps)
  have p2: "(2::real) powi (- bitlen m + 1) = 1 / 2 ^ nat (bitlen m - 1)"
    using b1 by (simp add: power_int_def field_simps nat_diff_distrib)
  have l: "2 powi (- bitlen m) \<le> a"
    unfolding p1 using yhi a0 by (simp add: y_def field_simps)
  have h: "a < 2 powi (- bitlen m + 1)"
    unfolding p2 using ylo a0 by (simp add: y_def field_simps)
  from l h show ?thesis unfolding b a_def by simp
qed

lemma two_powi_le: "a \<le> b \<Longrightarrow> (2::real) powi a \<le> 2 powi b"
  by (rule power_int_increasing) simp_all

lemma two_powi_split: "(2::real) powi (a + b) = 2 powi a * 2 powi b"
  by (rule power_int_add) simp

lemma binade_mono:
  assumes "0 < x" "x \<le> y"
  shows "binade x \<le> binade y"
proof (rule ccontr)
  assume "\<not> binade x \<le> binade y"
  then have "(2::real) powi (binade y + 1) \<le> 2 powi binade x" by (intro two_powi_le) simp
  moreover from binade_bounds [of x] assms have "2 powi binade x \<le> x" by simp
  moreover from binade_bounds [of y] assms have "y < 2 powi (binade y + 1)" by simp
  ultimately show False using assms(2) by linarith
qed

lemma rhe_nonneg: "0 \<le> x \<Longrightarrow> 0 \<le> round_half_even x"
  using rhe_mono [of 0 x] rhe_int [of 0] by simp

lemma rhe_nonpos: "x \<le> 0 \<Longrightarrow> round_half_even x \<le> 0"
  using rhe_mono [of x 0] rhe_int [of 0] by simp

lemma fl_nonneg: "0 \<le> x \<Longrightarrow> 0 \<le> fl x"
  by (simp add: fl_def Let_def rhe_nonneg)

lemma fl_nonpos: "x \<le> 0 \<Longrightarrow> fl x \<le> 0"
  by (simp add: fl_def Let_def rhe_nonpos mult_le_0_iff divide_le_0_iff)

text \<open>Rounding is monotone on the non-negative numbers.\<close>

lemma fl_mono:
  assumes "0 \<le> x" "x \<le> y"
  shows "fl x \<le> fl y"
proof (cases "x = 0")
  case True
  then have "fl x = 0" by (simp add: fl_def)
  moreover have "0 \<le> fl y" using assms True by (intro fl_nonneg) simp
  ultimately show ?thesis by simp
next
  case False
  with assms have x0: "0 < x" and y0: "0 < y" by simp_all
  define qx where "qx = max (binade x) (- 1022) - 52"
  define qy where "qy = max (binade y) (- 1022) - 52"
  have fx: "fl x = of_int (round_half_even (x / 2 powi qx)) * 2 powi qx"
    using x0 by (simp add: fl_def qx_def Let_def)
  have fy: "fl y = of_int (round_half_even (y / 2 powi qy)) * 2 powi qy"
    using y0 by (simp add: fl_def qy_def Let_def)
  have bxy: "binade x \<le> binade y" using x0 assms(2) by (rule binade_mono)
  then have q: "qx \<le> qy" by (simp add: qx_def qy_def)
  show ?thesis
  proof (cases "qx = qy")
    case True
    have "x / 2 powi qy \<le> y / 2 powi qy"
      using assms(2) by (simp add: divide_right_mono)
    then have "round_half_even (x / 2 powi qy) \<le> round_half_even (y / 2 powi qy)"
      by (rule rhe_mono)
    then show ?thesis unfolding fx fy True
      by (simp add: mult_right_mono)
  next
    case False
    with q have lt: "qx < qy" by simp
    then have by_big: "- 1022 < binade y" and qy_eq: "qy = binade y - 52"
      and step: "qx + 53 \<le> binade y"
      using bxy by (auto simp: qx_def qy_def)
    txt \<open>the smaller number rounds to at most \<open>2 powi (qx + 53)\<close>\<close>
    have "x < 2 powi (binade x + 1)" using binade_bounds [of x] x0 by simp
    also have "\<dots> \<le> 2 powi (qx + 53)" by (intro two_powi_le) (simp add: qx_def)
    finally have "x / 2 powi qx \<le> 2 powi (qx + 53) / 2 powi qx"
      by (simp add: divide_right_mono)
    also have "\<dots> = of_int (2 ^ 53)" by (simp add: two_powi_split)
    finally have "round_half_even (x / 2 powi qx) \<le> round_half_even (of_int (2 ^ 53))"
      by (rule rhe_mono)
    then have "round_half_even (x / 2 powi qx) \<le> 2 ^ 53" by (simp only: rhe_int)
    then have "of_int (round_half_even (x / 2 powi qx)) \<le> (2::real) ^ 53"
      by (metis of_int_le_iff of_int_numeral of_int_power)
    then have "fl x \<le> 2 ^ 53 * 2 powi qx" unfolding fx by (simp add: mult_right_mono)
    also have "\<dots> = 2 powi (qx + 53)" by (simp add: two_powi_split)
    also have "\<dots> \<le> 2 powi binade y" using step by (rule two_powi_le)
    finally have left: "fl x \<le> 2 powi binade y" .
    txt \<open>the larger number rounds to at least \<open>2 powi binade y\<close>\<close>
    have "2 powi binade y \<le> y" using binade_bounds [of y] y0 by simp
    then have "2 powi binade y / 2 powi qy \<le> y / 2 powi qy"
      by (simp add: divide_right_mono)
    moreover have "2 powi binade y / 2 powi qy = (of_int (2 ^ 52) :: real)"
      unfolding qy_eq using two_powi_split [of "binade y - 52" 52] by simp
    ultimately have "round_half_even (of_int (2 ^ 52)) \<le> round_half_even (y / 2 powi qy)"
      by (metis rhe_mono)
    then have "2 ^ 52 \<le> round_half_even (y / 2 powi qy)" by (simp only: rhe_int)
    then have "(2::real) ^ 52 \<le> of_int (round_half_even (y / 2 powi qy))"
      by (metis of_int_le_iff of_int_numeral of_int_power)
    then have "2 ^ 52 * 2 powi qy \<le> fl y" unfolding fy by (simp add: mult_right_mono)
    moreover have "2 ^ 52 * 2 powi qy = (2::real) powi binade y"
      unfolding qy_eq using two_powi_split [of "binade y - 52" 52] by simp
    ultimately have right: "2 powi binade y \<le> fl y" by simp
    from left right show ?thesis by linarith
  qed
qed

text \<open>The doubles that the theorems below need, evaluated.\<close>

lemma fl_one: "fl 1 = 1"
  by code_simp

lemma fl_literals:
  "fl (fl 0.6) = fl 0.6" "fl (fl 0.2) = fl 0.2" "fl (fl 0.7) = fl 0.7" "fl (fl 0.3) = fl 0.3"
  by code_simp+

lemma fl_weights_sum: "fl (fl (fl 0.6 + fl 0.2) + fl 0.2) = 1" "fl (fl 0.7 + fl 0.3) = 1"
  by code_simp+

lemma thresholds:
  "fl (0 * fl 0.7) < fl (1 * fl 0.7)" "fl (1 * fl 0.7) < fl (2 * fl 0.7)" "1 < fl (2 * fl 0.7)"
  by code_simp+

text \<open>
  Consequences used below: rounding does not pass 1 from below, and a product with a
  factor of the unit interval rounds to at most the rounded other factor.
\<close>

lemma fl_le_one: "x \<le> 1 \<Longrightarrow> fl x \<le> 1"
proof (cases "0 \<le> x")
  case True
  assume "x \<le> 1"
  with True have "fl x \<le> fl 1" by (rule fl_mono)
  then show ?thesis by (simp add: fl_one)
next
  case False
  then have "fl x \<le> 0" by (intro fl_nonpos) simp
  then show ?thesis by simp
qed

lemma fl_scaled:
  assumes "0 \<le> w" "0 \<le> x" "x \<le> 1"
  shows "0 \<le> fl (w * x) \<and> fl (w * x) \<le> fl w"
proof
  show "0 \<le> fl (w * x)" using assms by (intro fl_nonneg) simp
  have "w * x \<le> w * 1" using assms by (intro mult_left_mono) simp_all
  moreover have "0 \<le> w * x" using assms by simp
  ultimately have "fl (w * x) \<le> fl (w * 1)" by (intro fl_mono) simp_all
  then show "fl (w * x) \<le> fl w" by simp
qed

lemma time_factor_unit:
  assumes "0 \<le> t"
  shows "0 \<le> max 0 (fl (1 - fl (t / 60))) \<and> max 0 (fl (1 - fl (t / 60))) \<le> 1"
proof -
  have "0 \<le> fl (t / 60)" using assms by (intro fl_nonneg) simp
  then have "1 - fl (t / 60) \<le> 1" by simp
  then have "fl (1 - fl (t / 60)) \<le> 1" by (rule fl_le_one)
  then show ?thesis by simp
qed

text \<open>
  The size of a rounding: half a unit in the last place, which below 2 is at most
  \<open>1 / 2 ^ 53\<close>; and how such errors add up.
\<close>

lemma rhe_error: "\<bar>of_int (round_half_even x) - x\<bar> \<le> 1 / 2"
  by (auto simp: round_half_even_def Let_def abs_le_iff)

text \<open>Below 2 a rounding moves a number by at most \<open>1 / 2 ^ 53\<close>.\<close>

lemma fl_error:
  assumes "0 \<le> x" "x < 2"
  shows "\<bar>fl x - x\<bar> \<le> 1 / 2 ^ 53"
proof (cases "x = 0")
  case True
  then show ?thesis by (simp add: fl_def)
next
  case False
  with assms have x0: "0 < x" by simp
  define q where "q = max (binade x) (- 1022) - 52"
  have fx: "fl x = of_int (round_half_even (x / 2 powi q)) * 2 powi q"
    using x0 by (simp add: fl_def q_def Let_def)
  have "binade x < 1"
  proof (rule ccontr)
    assume "\<not> binade x < 1"
    then have "(2::real) powi 1 \<le> 2 powi binade x" by (intro two_powi_le) simp
    moreover have "2 powi binade x \<le> x" using binade_bounds [of x] x0 by simp
    ultimately show False using assms(2) by simp
  qed
  then have q52: "q \<le> - 52" by (simp add: q_def)
  have pos: "(0::real) < 2 powi q" by simp
  have "fl x - x = (of_int (round_half_even (x / 2 powi q)) - x / 2 powi q) * 2 powi q"
    unfolding fx using pos by (simp add: algebra_simps)
  then have "\<bar>fl x - x\<bar> = \<bar>of_int (round_half_even (x / 2 powi q)) - x / 2 powi q\<bar> * 2 powi q"
    using pos by (simp add: abs_mult)
  also have "\<dots> \<le> 1 / 2 * 2 powi q"
    using rhe_error [of "x / 2 powi q"] pos by (intro mult_right_mono) simp_all
  also have "\<dots> \<le> 1 / 2 * 2 powi (- 52)"
    using two_powi_le [OF q52] by simp
  also have "\<dots> = 1 / 2 ^ 53"
    by (simp add: power_int_minus field_simps)
  finally show ?thesis .
qed

lemma scaled_error:
  fixes w :: real
  assumes "\<bar>w - v\<bar> \<le> d" "0 \<le> x" "x \<le> 1"
  shows "\<bar>w * x - v * x\<bar> \<le> d"
proof -
  have "\<bar>w * x - v * x\<bar> = \<bar>w - v\<bar> * x"
    using assms(2) by (simp add: abs_mult flip: left_diff_distrib)
  also have "\<dots> \<le> d * 1"
    using assms by (intro mult_mono) simp_all
  finally show ?thesis by simp
qed

lemma error_chain:
  fixes x y z :: real
  assumes "\<bar>x - y\<bar> \<le> d" "\<bar>y - z\<bar> \<le> e"
  shows "\<bar>x - z\<bar> \<le> d + e"
  using assms by linarith

lemma error_sum:
  fixes x y u v :: real
  assumes "\<bar>x - u\<bar> \<le> d" "\<bar>y - v\<bar> \<le> e"
  shows "\<bar>(x + y) - (u + v)\<bar> \<le> d + e"
  using assms by linarith

lemma error_fifth:
  fixes x y :: real
  assumes "\<bar>x - y\<bar> \<le> 2 * d"
  shows "\<bar>0.2 * x - 0.2 * y\<bar> \<le> d"
  using assms by linarith

lemma fl_weights_below:
  "fl 0.6 + fl 0.2 < 2" "fl (fl 0.6 + fl 0.2) + fl 0.2 < 2"
  by code_simp+

section \<open>Properties of AdaptiveLearning\<close>

text \<open>The spec's example and its neighbours, evaluated in double precision.\<close>

lemma example_score:
  "calculate_performance_score (fl 0.9) 15 (fl 0.8) = 7656119366529844 / 2 ^ 53"
  by code_simp

lemma example_literal: "fl 0.85 = 7656119366529843 / 2 ^ 53"
  by code_simp

lemma example_steps:
  "determine_next_difficulty 1 2 = 2"
  "determine_next_difficulty (0.7 * 1 + 0.3 * 1) 2 = 2"
  by code_simp+

text \<open>
  The distance of the computed score from the exact value of the formula.
\<close>

lemma time_factor_error:
  assumes "0 \<le> t"
  shows "\<bar>max 0 (fl (1 - fl (t / 60))) - max 0 (1 - t / 60)\<bar> \<le> 2 / 2 ^ 53"
proof (cases "t / 60 < 1")
  case True
  let ?u = "fl (t / 60)"
  have x0: "0 \<le> t / 60" using assms by simp
  have u: "\<bar>?u - t / 60\<bar> \<le> 1 / 2 ^ 53" using x0 True by (intro fl_error) simp_all
  have u0: "0 \<le> ?u" using x0 by (rule fl_nonneg)
  have u1: "?u \<le> 1" using True by (intro fl_le_one) simp
  have y: "0 \<le> 1 - ?u" "1 - ?u < 2" using u0 u1 by simp_all
  have v: "\<bar>fl (1 - ?u) - (1 - ?u)\<bar> \<le> 1 / 2 ^ 53" using y by (rule fl_error)
  have v0: "0 \<le> fl (1 - ?u)" using y(1) by (rule fl_nonneg)
  have "max 0 (fl (1 - ?u)) = fl (1 - ?u)" using v0 by simp
  moreover have "max 0 (1 - t / 60) = 1 - t / 60" using True by simp
  ultimately show ?thesis using u v by linarith
next
  case False
  then have "1 \<le> t / 60" by simp
  then have "fl 1 \<le> fl (t / 60)" by (intro fl_mono) simp_all
  then have "1 - fl (t / 60) \<le> 0" by (simp add: fl_one)
  then have "fl (1 - fl (t / 60)) \<le> 0" by (rule fl_nonpos)
  then have "max 0 (fl (1 - fl (t / 60))) = 0" by simp
  moreover have "max 0 (1 - t / 60) = 0" using False by simp
  ultimately show ?thesis by simp
qed

lemma performance_score_error:
  assumes "0 \<le> r" "r \<le> 1" "0 \<le> k" "k \<le> 1" "0 \<le> t"
  shows "\<bar>calculate_performance_score r t k
          - (0.6 * r + 0.2 * max 0 (1 - t / 60) + 0.2 * k)\<bar> \<le> 1 / 2 ^ 49"
proof -
  let ?d = "(1 / 2 ^ 53 :: real)"
  let ?tf = "max 0 (fl (1 - fl (t / 60)))" and ?T = "max 0 (1 - t / 60)"
  let ?a = "fl (fl 0.6 * r)" and ?b = "fl (fl 0.2 * ?tf)" and ?c = "fl (fl 0.2 * k)"
  have eq: "calculate_performance_score r t k = fl (fl (?a + ?b) + ?c)"
    by (simp add: calculate_performance_score_def)
  have w6: "\<bar>fl 0.6 - 0.6\<bar> \<le> ?d" and w2: "\<bar>fl 0.2 - 0.2\<bar> \<le> ?d"
    by (rule fl_error; simp)+
  have p6: "(0::real) \<le> fl 0.6" and p2: "(0::real) \<le> fl 0.2"
    by (simp_all add: fl_nonneg)
  from time_factor_unit [OF assms(5)] have tf: "0 \<le> ?tf" "?tf \<le> 1" by simp_all
  note sa = fl_scaled [OF p6 assms(1,2)]
  note sb = fl_scaled [OF p2 tf]
  note sc = fl_scaled [OF p2 assms(3,4)]
  have a: "0 \<le> ?a" "?a \<le> fl 0.6" using sa unfolding fl_literals(1) by blast+
  have b: "0 \<le> ?b" "?b \<le> fl 0.2" using sb unfolding fl_literals(2) by blast+
  have c: "0 \<le> ?c" "?c \<le> fl 0.2" using sc unfolding fl_literals(2) by blast+
  have small: "fl 0.6 \<le> (1::real)" "fl 0.2 \<le> (1::real)"
    by (simp_all add: fl_le_one)
  txt \<open>the three products\<close>
  have "0 \<le> fl 0.6 * r" "fl 0.6 * r < 2"
    using p6 small(1) assms(1,2) mult_le_one [of "fl 0.6" r] by simp_all
  then have ra: "\<bar>?a - fl 0.6 * r\<bar> \<le> ?d" by (rule fl_error)
  have ea: "\<bar>fl 0.6 * r - 0.6 * r\<bar> \<le> ?d" using w6 assms(1,2) by (rule scaled_error)
  have "0 \<le> fl 0.2 * ?tf" "fl 0.2 * ?tf < 2"
    using p2 small(2) tf mult_le_one [of "fl 0.2" ?tf] by simp_all
  then have rb: "\<bar>?b - fl 0.2 * ?tf\<bar> \<le> ?d" by (rule fl_error)
  have eb: "\<bar>fl 0.2 * ?tf - 0.2 * ?tf\<bar> \<le> ?d" using w2 tf by (rule scaled_error)
  have et: "\<bar>?tf - ?T\<bar> \<le> 2 / 2 ^ 53" using assms(5) by (rule time_factor_error)
  have "0 \<le> fl 0.2 * k" "fl 0.2 * k < 2"
    using p2 small(2) assms(3,4) mult_le_one [of "fl 0.2" k] by simp_all
  then have rc: "\<bar>?c - fl 0.2 * k\<bar> \<le> ?d" by (rule fl_error)
  have ec: "\<bar>fl 0.2 * k - 0.2 * k\<bar> \<le> ?d" using w2 assms(3,4) by (rule scaled_error)
  txt \<open>the two sums\<close>
  have "0 \<le> ?a + ?b" "?a + ?b < 2"
    using a b fl_weights_below(1) by linarith+
  then have r1: "\<bar>fl (?a + ?b) - (?a + ?b)\<bar> \<le> ?d" by (rule fl_error)
  have s1: "0 \<le> fl (?a + ?b)"
    using a(1) b(1) by (intro fl_nonneg) simp
  have "0 \<le> fl (?a + ?b) + ?c" "fl (?a + ?b) + ?c < 2"
  proof -
    show "0 \<le> fl (?a + ?b) + ?c" using s1 c(1) by simp
    have "fl (?a + ?b) \<le> fl (fl 0.6 + fl 0.2)"
      using a b by (intro fl_mono) simp_all
    moreover note fl_weights_below(2)
    ultimately show "fl (?a + ?b) + ?c < 2" using c(2) by linarith
  qed
  then have r2: "\<bar>fl (fl (?a + ?b) + ?c) - (fl (?a + ?b) + ?c)\<bar> \<le> ?d" by (rule fl_error)
  have "\<bar>?tf - ?T\<bar> \<le> 2 * ?d" using et by simp
  then have half: "\<bar>0.2 * ?tf - 0.2 * ?T\<bar> \<le> ?d" by (rule error_fifth)
  note ta = error_chain [OF ra ea]
  note tb = error_chain [OF error_chain [OF rb eb] half]
  note tc = error_chain [OF rc ec]
  note t1 = error_chain [OF r1 error_sum [OF ta tb]]
  note t2 = error_chain [OF r2 error_sum [OF t1 tc]]
  have "?d + (?d + (?d + ?d + (?d + ?d + ?d)) + (?d + ?d)) \<le> 1 / 2 ^ 49"
    by simp
  with t2 show ?thesis unfolding eq by (rule order_trans)
qed

text \<open>
  C5 (as the code has it). For correct ratio and confidence score in the unit interval
  and a non-negative average response time, \<open>_calculate_performance_score\<close> returns the
  double-precision value of
  \<open>0.6*correct_ratio + 0.2*max(0, 1 - avg_response_time/60) + 0.2*confidence_score\<close>,
  each operation rounded to the nearest double, which is within \<open>2^-49\<close> of the exact
  value of that formula; the result lies in the unit interval; and at (0.9, 15, 0.8) it
  is 0.8500000000000001, that is \<open>7656119366529844 / 2^53\<close>.
\<close>

theorem performance_score_formula_and_range:
  assumes "0 \<le> r" "r \<le> 1" "0 \<le> k" "k \<le> 1" "0 \<le> t"
  shows "calculate_performance_score r t k =
           fl (fl (fl (fl 0.6 * r) + fl (fl 0.2 * max 0 (fl (1 - fl (t / 60)))))
               + fl (fl 0.2 * k))
       \<and> \<bar>calculate_performance_score r t k
            - (0.6 * r + 0.2 * max 0 (1 - t / 60) + 0.2 * k)\<bar> \<le> 1 / 2 ^ 49
       \<and> 0 \<le> calculate_performance_score r t k
       \<and> calculate_performance_score r t k \<le> 1
       \<and> calculate_performance_score (fl 0.9) 15 (fl 0.8) = 7656119366529844 / 2 ^ 53"
proof -
  note near = performance_score_error [OF assms]
  let ?tf = "max 0 (fl (1 - fl (t / 60)))"
  let ?a = "fl (fl 0.6 * r)" and ?b = "fl (fl 0.2 * ?tf)" and ?c = "fl (fl 0.2 * k)"
  have eq: "calculate_performance_score r t k = fl (fl (?a + ?b) + ?c)"
    by (simp add: calculate_performance_score_def)
  have w6: "(0::real) \<le> fl 0.6" and w2: "(0::real) \<le> fl 0.2"
    by (simp_all add: fl_nonneg)
  from time_factor_unit [OF assms(5)] have tf: "0 \<le> ?tf" "?tf \<le> 1" by simp_all
  note sa = fl_scaled [OF w6 assms(1,2)]
  note sb = fl_scaled [OF w2 tf]
  note sc = fl_scaled [OF w2 assms(3,4)]
  have a: "0 \<le> ?a" "?a \<le> fl 0.6"
    using sa unfolding fl_literals(1) by blast+
  have b: "0 \<le> ?b" "?b \<le> fl 0.2"
    using sb unfolding fl_literals(2) by blast+
  have c: "0 \<le> ?c" "?c \<le> fl 0.2"
    using sc unfolding fl_literals(2) by blast+
  have ab0: "0 \<le> ?a + ?b" using a(1) b(1) by simp
  then have s0: "0 \<le> fl (?a + ?b)" by (rule fl_nonneg)
  have "?a + ?b \<le> fl 0.6 + fl 0.2" using a(2) b(2) by simp
  with ab0 have s1: "fl (?a + ?b) \<le> fl (fl 0.6 + fl 0.2)" by (rule fl_mono)
  have abc0: "0 \<le> fl (?a + ?b) + ?c" using s0 c(1) by simp
  then have lo: "0 \<le> fl (fl (?a + ?b) + ?c)" by (rule fl_nonneg)
  have "fl (?a + ?b) + ?c \<le> fl (fl 0.6 + fl 0.2) + fl 0.2" using s1 c(2) by simp
  with abc0 have "fl (fl (?a + ?b) + ?c) \<le> fl (fl (fl 0.6 + fl 0.2) + fl 0.2)" by (rule fl_mono)
  then have hi: "fl (fl (?a + ?b) + ?c) \<le> 1" by (simp only: fl_weights_sum(1))
  from eq near lo hi example_score show ?thesis by (simp only:) 
qed

theorem performance_score_witness:
  "0 \<le> calculate_performance_score (fl 0.9) 15 (fl 0.8)
   \<and> calculate_performance_score (fl 0.9) 15 (fl 0.8) \<le> 1
   \<and> calculate_performance_score (fl 0.9) 15 (fl 0.8) = 7656119366529844 / 2 ^ 53"
proof -
  have r: "0 \<le> fl 0.9" "fl 0.9 \<le> 1" and k: "0 \<le> fl 0.8" "fl 0.8 \<le> 1"
    by (simp_all add: fl_nonneg fl_le_one)
  have t: "(0::real) \<le> 15" by simp
  from performance_score_formula_and_range [OF r k t] show ?thesis by blast
qed

text \<open>
  The claim C5 as written fails on its own example: the call with 0.9, 15 and 0.8
  returns the double one unit in the last place above the double 0.85, which is neither
  the double 0.85 nor the real number 0.85.
\<close>

theorem performance_score_example_counterexample:
  "calculate_performance_score (fl 0.9) 15 (fl 0.8) \<noteq> fl 0.85
   \<and> calculate_performance_score (fl 0.9) 15 (fl 0.8) \<noteq> 0.85
   \<and> calculate_performance_score (fl 0.9) 15 (fl 0.8) - fl 0.85 = 1 / 2 ^ 53"
  unfolding example_score example_literal by simp

text \<open>
  C1. At current difficulty "intermediate" (ordinal 2) the move-up threshold is
  \<open>2 * 0.7 = 1.4\<close>. A blend \<open>0.7*model + 0.3*heuristic\<close> of two values of the unit
  interval is itself in the unit interval, and for every proficiency in the unit interval
  \<open>_determine_next_difficulty\<close> does not return "advanced" (ordinal 3).
\<close>

theorem intermediate_never_moves_up:
  assumes "0 \<le> p" "p \<le> 1" "0 \<le> m" "m \<le> 1" "0 \<le> h" "h \<le> 1"
  shows "determine_next_difficulty p 2 \<noteq> 3
       \<and> 2 * confidence_threshold = 1.4
       \<and> 0 \<le> 0.7 * m + 0.3 * h \<and> 0.7 * m + 0.3 * h \<le> 1
       \<and> determine_next_difficulty (0.7 * m + 0.3 * h) 2 \<noteq> 3"
proof -
  have thr: "2 * confidence_threshold = 1.4"
    by (simp add: confidence_threshold_def)
  have stay: "determine_next_difficulty q 2 \<noteq> 3" if "q \<le> 1" for q
  proof -
    from that thresholds(3) have "\<not> fl (2 * fl 0.7) \<le> q" by linarith
    then show ?thesis
      by (simp add: determine_next_difficulty_def confidence_threshold_def Let_def)
  qed
  have lo: "0 \<le> 0.7 * m + 0.3 * h"
    using assms(3,5) by simp
  have hi: "0.7 * m + 0.3 * h \<le> 1"
    using assms(4,6) by simp
  from thr stay [OF assms(2)] lo hi stay [OF hi] show ?thesis by simp
qed

theorem intermediate_never_moves_up_witness:
  "determine_next_difficulty 1 2 \<noteq> 3
   \<and> determine_next_difficulty (0.7 * 1 + 0.3 * 1) 2 = 2"
  using intermediate_never_moves_up [of 1 1 1] example_steps(2)
  by simp

text \<open>
  C9. For a positive response time and a difficulty ordinal \<open>d\<close> among 1, 2, 3,
  \<open>_calculate_confidence\<close> returns 0.2 for an incorrect answer and
  \<open>0.5 + 0.5*min(1, (10*d)/response_time)\<close> for a correct one, a value above 0.5 and at
  most 1.
\<close>

theorem calculate_confidence_formula:
  assumes "0 < t" "d \<in> {1, 2, 3}"
  shows "calculate_confidence False t d = 0.2
       \<and> calculate_confidence True t d = 0.5 + 0.5 * min 1 ((10 * of_int d) / t)
       \<and> 0.5 < calculate_confidence True t d
       \<and> calculate_confidence True t d \<le> 1"
proof -
  have d1: "1 \<le> (of_int d :: real)"
    using assms(2) by auto
  have wrong: "calculate_confidence False t d = 0.2"
    by (simp add: calculate_confidence_def)
  have same: "min 1 ((10 * of_int d) / max 1 t) = min 1 ((10 * of_int d) / t)"
  proof (cases "1 \<le> t")
    case True
    then show ?thesis by (simp add: max_def)
  next
    case False
    then have "t < 10 * of_int d" using d1 by linarith
    then have "1 \<le> (10 * of_int d) / t" using assms(1) by simp
    moreover have "1 \<le> (10 * of_int d) / max 1 t" using False d1 by (simp add: max_def)
    ultimately show ?thesis by simp
  qed
  have right: "calculate_confidence True t d = 0.5 + 0.5 * min 1 ((10 * of_int d) / t)"
    using same by (simp add: calculate_confidence_def Let_def)
  have pos: "0 < min 1 ((10 * of_int d) / t)"
    using assms(1) d1 by simp
  have le: "min 1 ((10 * of_int d) / t) \<le> 1"
    by simp
  have above: "0.5 < calculate_confidence True t d"
    unfolding right using pos by linarith
  have below: "calculate_confidence True t d \<le> 1"
    unfolding right using le by linarith
  from wrong right above below show ?thesis by simp
qed

theorem calculate_confidence_formula_witness:
  "calculate_confidence False 40 2 = 0.2
   \<and> calculate_confidence True 40 2 = 0.75
   \<and> calculate_confidence True 0.5 1 = 1"
  using calculate_confidence_formula [of 40 2] calculate_confidence_formula [of "0.5" 1]
  by simp

section \<open>Properties of ProficiencyPredictor\<close>

text \<open>
  C3 (as the code has it). The recency feature, fifth of the vector, is
  \<open>exp(-0.05 * days_since)\<close>. When the key \<open>"timestamp"\<close> is absent, \<open>days_since\<close> keeps
  its initial value 0 and the feature is \<open>exp(0) = 1\<close>; when the timestamp is a string
  that \<open>fromisoformat\<close> rejects, \<open>days_since\<close> is 30 and the feature is \<open>exp(-1.5)\<close>.
\<close>

theorem recency_feature:
  "extract_features clk pd ! 4 = exp (- 0.05 * of_int (days_since clk pd))
   \<and> (pd_timestamp pd = None \<longrightarrow> days_since clk pd = 0 \<and> extract_features clk pd ! 4 = 1)
   \<and> (pd_timestamp pd = Some (TsStr s) \<and> fromisoformat clk s = None
        \<longrightarrow> days_since clk pd = 30 \<and> extract_features clk pd ! 4 = exp (- 1.5))"
proof -
  have feat: "extract_features clk pd ! 4 = exp (- 0.05 * of_int (days_since clk pd))"
    by (simp add: extract_features_def Let_def)
  have missing: "days_since clk pd = 0" if "pd_timestamp pd = None"
    using that by (simp add: days_since_def)
  have garbled: "days_since clk pd = 30"
    if "pd_timestamp pd = Some (TsStr s)" "fromisoformat clk s = None"
    using that by (simp add: days_since_def)
  show ?thesis
    using missing garbled by (auto simp: feat)
qed

theorem recency_feature_witness:
  "days_since example_clock garbled_performance = 30
   \<and> extract_features example_clock garbled_performance ! 4 = exp (- 1.5)
   \<and> days_since example_clock empty_performance = 0"
  using recency_feature [of example_clock garbled_performance "''yesterday''"]
        recency_feature [of example_clock empty_performance "''yesterday''"]
  by (simp add: garbled_performance_def empty_performance_def example_clock_def no_parse_def)

text \<open>
  The claim C3 as written fails: a performance dictionary without the key
  \<open>"timestamp"\<close> gets \<open>days_since = 0\<close> and recency 1, not 30 and \<open>exp(-1.5)\<close>.
\<close>

theorem recency_missing_timestamp_counterexample:
  "pd_timestamp empty_performance = None
   \<and> days_since example_clock empty_performance = 0
   \<and> days_since example_clock empty_performance \<noteq> 30
   \<and> extract_features example_clock empty_performance ! 4 = 1
   \<and> extract_features example_clock empty_performance ! 4 \<noteq> exp (- 1.5)"
proof -
  have ts: "pd_timestamp empty_performance = None"
    by (simp add: empty_performance_def)
  have d: "days_since example_clock empty_performance = 0"
    by (simp add: days_since_def ts)
  have f: "extract_features example_clock empty_performance ! 4 = 1"
    by (simp add: extract_features_def Let_def d)
  have "exp (- 1.5 :: real) \<noteq> 1"
    by simp
  with ts d f show ?thesis by simp
qed

subsection \<open>Loading, training and the fallback to the default model\<close>











section \<open>Properties of the difficulty adaptation\<close>

text \<open>
  The predictor always hands a number back, so \<open>_estimate_proficiency\<close> returns the
  blend of the predictor's answer on the dictionary it built, and
  \<open>calculate_next_difficulty\<close> returns the name of the level that
  \<open>_determine_next_difficulty\<close> picks for that blend.
\<close>

lemma predict_proficiency_result:
  "\<exists>p self'. predict_proficiency clk t self uid topic cur hist = (Inr p, self')"
proof (cases "predict_proficiency_try clk t self uid topic cur hist")
  case (Pair r self')
  show ?thesis
  proof (cases r)
    case (Inl e)
    with Pair have "predict_proficiency clk t self uid topic cur hist = (Inr 0.5, self')"
      by (simp add: predict_proficiency_def)
    then show ?thesis by blast
  next
    case (Inr p)
    with Pair have "predict_proficiency clk t self uid topic cur hist = (Inr p, self')"
      by (simp add: predict_proficiency_def)
    then show ?thesis by blast
  qed
qed

lemma estimate_proficiency_result:
  "\<exists>m predictor'.
      predict_proficiency clk t predictor uid topic (estimate_current_performance p c hist) hist
        = (Inr m, predictor')
      \<and> estimate_proficiency clk t predictor uid topic p c hist
        = (Inr (blended_proficiency m p c), predictor')"
proof -
  from predict_proficiency_result obtain m predictor' where
    "predict_proficiency clk t predictor uid topic (estimate_current_performance p c hist) hist
       = (Inr m, predictor')"
    by blast
  then show ?thesis by (auto simp: estimate_proficiency_def)
qed

lemma calculate_next_difficulty_result:
  assumes "ps = calculate_performance_score (get_or (pd_correct_ratio cur) 0.5)
                  (get_or (pd_avg_response_time cur) 30) (get_or (pd_confidence_score cur) 0.5)"
      and "c = get_or (map_of difficulty_levels (get_or (pd_difficulty cur) ''intermediate'')) 2"
  shows "\<exists>m predictor'.
      predict_proficiency clk t predictor uid topic (estimate_current_performance ps c hist) hist
        = (Inr m, predictor')
      \<and> calculate_next_difficulty clk t predictor uid topic cur hist
        = (Inr (get_or (map_of difficulty_names
                          (determine_next_difficulty (blended_proficiency m ps c) c))
                  ''intermediate''),
           predictor')"
proof -
  from estimate_proficiency_result [of clk t predictor uid topic ps c hist]
  obtain m predictor' where
    p: "predict_proficiency clk t predictor uid topic (estimate_current_performance ps c hist)
          hist = (Inr m, predictor')" and
    e: "estimate_proficiency clk t predictor uid topic ps c hist
          = (Inr (blended_proficiency m ps c), predictor')"
    by blast
  have "calculate_next_difficulty clk t predictor uid topic cur hist
        = (Inr (get_or (map_of difficulty_names
                          (determine_next_difficulty (blended_proficiency m ps c) c))
                  ''intermediate''),
           predictor')"
    using e unfolding assms by (simp add: calculate_next_difficulty_def Let_def)
  with p show ?thesis by blast
qed

text \<open>The blend of two values of the unit interval stays in the unit interval.\<close>

lemma blended_proficiency_unit:
  assumes "0 \<le> m" "m \<le> 1" "0 \<le> p" "p \<le> 1" "c \<in> {1, 2, 3}"
  shows "0 \<le> blended_proficiency m p c \<and> blended_proficiency m p c \<le> 1"
proof -
  let ?third = "fl (of_int c / 3)"
  let ?h = "fl (p * ?third)"
  let ?a = "fl (fl 0.7 * m)" and ?b = "fl (fl 0.3 * ?h)"
  have eq: "blended_proficiency m p c = fl (?a + ?b)"
    by (simp add: blended_proficiency_def)
  have c3: "0 \<le> (of_int c / 3 :: real)" "(of_int c / 3 :: real) \<le> 1"
    using assms(5) by auto
  have t: "0 \<le> ?third" "?third \<le> 1"
    using c3 by (simp_all add: fl_nonneg fl_le_one)
  have "0 \<le> p * ?third" using assms(3) t(1) by simp
  moreover have "p * ?third \<le> 1 * 1" using assms(3,4) t by (intro mult_mono) simp_all
  ultimately have h: "0 \<le> ?h" "?h \<le> 1"
    by (simp_all add: fl_nonneg fl_le_one)
  have w7: "(0::real) \<le> fl 0.7" and w3: "(0::real) \<le> fl 0.3"
    by (simp_all add: fl_nonneg)
  note sa = fl_scaled [OF w7 assms(1,2)]
  note sb = fl_scaled [OF w3 h]
  have a: "0 \<le> ?a" "?a \<le> fl 0.7"
    using sa unfolding fl_literals(3) by blast+
  have b: "0 \<le> ?b" "?b \<le> fl 0.3"
    using sb unfolding fl_literals(4) by blast+
  have ab0: "0 \<le> ?a + ?b" using a(1) b(1) by simp
  then have lo: "0 \<le> fl (?a + ?b)" by (rule fl_nonneg)
  have "?a + ?b \<le> fl 0.7 + fl 0.3" using a(2) b(2) by simp
  with ab0 have "fl (?a + ?b) \<le> fl (fl 0.7 + fl 0.3)" by (rule fl_mono)
  then have hi: "fl (?a + ?b) \<le> 1" by (simp only: fl_weights_sum(2))
  from lo hi show ?thesis unfolding eq by simp
qed

text \<open>The distance of the computed blend from the exact value of the formula.\<close>

lemma error_scaled_03:
  fixes x y :: real
  assumes "\<bar>x - y\<bar> \<le> 2 * d"
  shows "\<bar>0.3 * x - 0.3 * y\<bar> \<le> d"
  using assms by linarith

lemma fl_blend_below: "fl 0.7 + fl 0.3 < 2"
  by code_simp

lemma blended_proficiency_error:
  assumes "0 \<le> m" "m \<le> 1" "0 \<le> p" "p \<le> 1" "c \<in> {1, 2, 3}"
  shows "\<bar>blended_proficiency m p c - (0.7 * m + 0.3 * (p * (of_int c / 3)))\<bar> \<le> 1 / 2 ^ 50"
proof -
  let ?d = "(1 / 2 ^ 53 :: real)"
  let ?third = "fl (of_int c / 3)"
  let ?h = "fl (p * ?third)"
  let ?a = "fl (fl 0.7 * m)" and ?b = "fl (fl 0.3 * ?h)"
  have eq: "blended_proficiency m p c = fl (?a + ?b)"
    by (simp add: blended_proficiency_def)
  have c3: "0 \<le> (of_int c / 3 :: real)" "(of_int c / 3 :: real) \<le> 1"
    using assms(5) by auto
  then have "(of_int c / 3 :: real) < 2" by simp
  with c3(1) have r3: "\<bar>?third - of_int c / 3\<bar> \<le> ?d" by (rule fl_error)
  have t: "0 \<le> ?third" "?third \<le> 1"
    using c3 by (simp_all add: fl_nonneg fl_le_one)
  have pt: "0 \<le> p * ?third" "p * ?third \<le> 1"
    using assms(3,4) t mult_le_one [of p ?third] by simp_all
  then have "p * ?third < 2" by simp
  with pt(1) have rh: "\<bar>?h - p * ?third\<bar> \<le> ?d" by (rule fl_error)
  have "\<bar>?third * p - of_int c / 3 * p\<bar> \<le> ?d"
    using r3 assms(3,4) by (rule scaled_error)
  then have eh: "\<bar>p * ?third - p * (of_int c / 3)\<bar> \<le> ?d"
    by (simp add: mult.commute)
  have h: "0 \<le> ?h" "?h \<le> 1"
    using pt by (simp_all add: fl_nonneg fl_le_one)
  have w7: "\<bar>fl 0.7 - 0.7\<bar> \<le> ?d" and w3: "\<bar>fl 0.3 - 0.3\<bar> \<le> ?d"
    by (rule fl_error; simp)+
  have p7: "(0::real) \<le> fl 0.7" and p3: "(0::real) \<le> fl 0.3"
    by (simp_all add: fl_nonneg)
  have small: "fl 0.7 \<le> (1::real)" "fl 0.3 \<le> (1::real)"
    by (simp_all add: fl_le_one)
  note sa = fl_scaled [OF p7 assms(1,2)]
  note sb = fl_scaled [OF p3 h]
  have a: "0 \<le> ?a" "?a \<le> fl 0.7" using sa unfolding fl_literals(3) by blast+
  have b: "0 \<le> ?b" "?b \<le> fl 0.3" using sb unfolding fl_literals(4) by blast+
  have "0 \<le> fl 0.7 * m" "fl 0.7 * m < 2"
    using p7 small(1) assms(1,2) mult_le_one [of "fl 0.7" m] by simp_all
  then have ra: "\<bar>?a - fl 0.7 * m\<bar> \<le> ?d" by (rule fl_error)
  have ea: "\<bar>fl 0.7 * m - 0.7 * m\<bar> \<le> ?d" using w7 assms(1,2) by (rule scaled_error)
  have "0 \<le> fl 0.3 * ?h" "fl 0.3 * ?h < 2"
    using p3 small(2) h mult_le_one [of "fl 0.3" ?h] by simp_all
  then have rb: "\<bar>?b - fl 0.3 * ?h\<bar> \<le> ?d" by (rule fl_error)
  have eb: "\<bar>fl 0.3 * ?h - 0.3 * ?h\<bar> \<le> ?d" using w3 h by (rule scaled_error)
  have "\<bar>?h - p * (of_int c / 3)\<bar> \<le> 2 * ?d"
    using error_chain [OF rh eh] by simp
  then have hb: "\<bar>0.3 * ?h - 0.3 * (p * (of_int c / 3))\<bar> \<le> ?d"
    by (rule error_scaled_03)
  have "0 \<le> ?a + ?b" "?a + ?b < 2"
    using a b fl_blend_below by linarith+
  then have rs: "\<bar>fl (?a + ?b) - (?a + ?b)\<bar> \<le> ?d" by (rule fl_error)
  note ta = error_chain [OF ra ea]
  note tb = error_chain [OF error_chain [OF rb eb] hb]
  note ts = error_chain [OF rs error_sum [OF ta tb]]
  have "?d + (?d + ?d + (?d + ?d + ?d)) \<le> 1 / 2 ^ 50"
    by simp
  with ts show ?thesis unfolding eq by (rule order_trans)
qed

text \<open>The blends at the thresholds and at a point just below one, evaluated.\<close>

lemma example_blends:
  "blended_proficiency 1 0 1 = fl (of_int 1 * fl 0.7)"
  "determine_next_difficulty (blended_proficiency 1 0 1) 1 = 2"
  "blended_proficiency 1 0 2 = fl (of_int (2 - 1) * fl 0.7)"
  "blended_proficiency 0.75 0.875 2 = 6305039478318693 / 2 ^ 53"
  "determine_next_difficulty (blended_proficiency 0.75 0.875 2) 2 = 1"
  by code_simp+

text \<open>
  C4 (as the code has it). \<open>_estimate_proficiency\<close> returns the blend of the
  predictor's answer \<open>m\<close> with the heuristic, \<open>0.7*m + 0.3*(p*(c/3))\<close> in double
  precision. For a current ordinal \<open>c\<close> among 1, 2, 3 the next ordinal is \<open>c+1\<close> when
  the blend is at least \<open>c*0.7\<close> and \<open>c < 3\<close>, \<open>c-1\<close> when the blend is below
  \<open>(c-1)*0.7\<close> and \<open>c > 1\<close>, and \<open>c\<close> otherwise, the thresholds being double
  products. The result is again among 1, 2, 3 and differs from \<open>c\<close> by at most one.
  A blend equal to the move-down threshold stays at \<open>c\<close>; a blend equal to the move-up
  threshold moves up when \<open>c < 3\<close>. For \<open>m\<close> and \<open>p\<close> in the unit interval the blend is
  in the unit interval and within \<open>2^-50\<close> of the exact value of the formula.
\<close>

theorem next_difficulty_threshold_rule:
  assumes "c \<in> {1, 2, 3}"
  shows "(\<exists>m' predictor'.
            predict_proficiency clk t predictor uid topic
                (estimate_current_performance p c hist) hist = (Inr m', predictor')
            \<and> estimate_proficiency clk t predictor uid topic p c hist
                = (Inr (blended_proficiency m' p c), predictor'))
       \<and> blended_proficiency m p c
           = fl (fl (fl 0.7 * m) + fl (fl 0.3 * fl (p * fl (of_int c / 3))))
       \<and> determine_next_difficulty (blended_proficiency m p c) c =
           (if blended_proficiency m p c \<ge> fl (of_int c * fl 0.7) \<and> c < 3 then c + 1
            else if blended_proficiency m p c < fl (of_int (c - 1) * fl 0.7) \<and> c > 1 then c - 1
            else c)
       \<and> \<bar>determine_next_difficulty (blended_proficiency m p c) c - c\<bar> \<le> 1
       \<and> determine_next_difficulty (blended_proficiency m p c) c \<in> {1, 2, 3}
       \<and> (blended_proficiency m p c = fl (of_int (c - 1) * fl 0.7)
            \<longrightarrow> determine_next_difficulty (blended_proficiency m p c) c = c)
       \<and> (blended_proficiency m p c = fl (of_int c * fl 0.7) \<and> c < 3
            \<longrightarrow> determine_next_difficulty (blended_proficiency m p c) c = c + 1)
       \<and> (0 \<le> m \<and> m \<le> 1 \<and> 0 \<le> p \<and> p \<le> 1
            \<longrightarrow> 0 \<le> blended_proficiency m p c \<and> blended_proficiency m p c \<le> 1
              \<and> \<bar>blended_proficiency m p c - (0.7 * m + 0.3 * (p * (of_int c / 3)))\<bar>
                    \<le> 1 / 2 ^ 50)"
proof -
  let ?b = "blended_proficiency m p c"
  let ?up = "fl (of_int c * fl 0.7)" and ?down = "fl (of_int (c - 1) * fl 0.7)"
  note est = estimate_proficiency_result [of clk t predictor uid topic p c hist]
  have blend: "?b = fl (fl (fl 0.7 * m) + fl (fl 0.3 * fl (p * fl (of_int c / 3))))"
    by (simp add: blended_proficiency_def)
  have rule: "determine_next_difficulty ?b c =
           (if ?b \<ge> ?up \<and> c < 3 then c + 1
            else if ?b < ?down \<and> c > 1 then c - 1
            else c)"
    by (simp add: determine_next_difficulty_def confidence_threshold_def)
  have step: "\<bar>determine_next_difficulty ?b c - c\<bar> \<le> 1"
    unfolding rule by simp
  have range: "determine_next_difficulty ?b c \<in> {1, 2, 3}"
    unfolding rule using assms by auto
  have order: "?down < ?up" if "c < 3"
  proof -
    from assms that consider "c = 1" | "c = 2" by auto
    then show ?thesis
    proof cases
      case 1
      then show ?thesis using thresholds(1) by simp
    next
      case 2
      then show ?thesis using thresholds(2) by simp
    qed
  qed
  have tie_down: "determine_next_difficulty ?b c = c" if "?b = ?down"
  proof (cases "c < 3")
    case True
    from order [OF True] that have "\<not> ?up \<le> ?b" by simp
    with that show ?thesis unfolding rule by simp
  next
    case False
    with that show ?thesis unfolding rule by simp
  qed
  have tie_up: "determine_next_difficulty ?b c = c + 1" if "?b = ?up" "c < 3"
    using that unfolding rule by simp
  have unit: "0 \<le> ?b \<and> ?b \<le> 1
        \<and> \<bar>?b - (0.7 * m + 0.3 * (p * (of_int c / 3)))\<bar> \<le> 1 / 2 ^ 50"
    if "0 \<le> m" "m \<le> 1" "0 \<le> p" "p \<le> 1"
    using blended_proficiency_unit [OF that assms] blended_proficiency_error [OF that assms]
    by (simp only:) 
  from est blend rule step range tie_down tie_up unit show ?thesis by blast
qed

theorem next_difficulty_threshold_rule_witness:
  "fst (estimate_proficiency example_clock steady_torch fresh_predictor ''u1'' ''algebra''
          0.875 2 None) = Inr (6305039478318693 / 2 ^ 53)
   \<and> determine_next_difficulty (blended_proficiency 0.75 0.875 2) 2 = 1
   \<and> blended_proficiency 1 0 2 = fl (of_int (2 - 1) * fl 0.7)
   \<and> determine_next_difficulty (blended_proficiency 1 0 2) 2 = 2"
proof -
  have two: "(2::int) \<in> {1, 2, 3}" by simp
  have answer: "fst (predict_proficiency example_clock steady_torch fresh_predictor ''u1''
                       ''algebra'' (estimate_current_performance 0.875 2 None) None)
                  = Inr 0.75"
    by (simp add: predict_proficiency_def predict_proficiency_try_def load_model_def
          steady_torch_def fresh_predictor_def Let_def)
  note rule = next_difficulty_threshold_rule [OF two]
  from rule [of example_clock steady_torch fresh_predictor "''u1''" "''algebra''"
      "0.875" None 1]
  obtain m' predictor' where
    p: "predict_proficiency example_clock steady_torch fresh_predictor ''u1'' ''algebra''
          (estimate_current_performance 0.875 2 None) None = (Inr m', predictor')" and
    est: "estimate_proficiency example_clock steady_torch fresh_predictor ''u1'' ''algebra''
          0.875 2 None = (Inr (blended_proficiency m' 0.875 2), predictor')"
    by blast
  from p answer have m': "m' = 0.75" by simp
  have e: "fst (estimate_proficiency example_clock steady_torch fresh_predictor ''u1''
                  ''algebra'' 0.875 2 None) = Inr (blended_proficiency 0.75 0.875 2)"
    unfolding est m' by (rule fst_conv)
  from rule [of example_clock steady_torch fresh_predictor "''u1''" "''algebra''" 0 None 1]
  have "blended_proficiency 1 0 2 = fl (of_int (2 - 1) * fl 0.7)
          \<longrightarrow> determine_next_difficulty (blended_proficiency 1 0 2) 2 = 2"
    by blast
  with example_blends(3)
  have s: "determine_next_difficulty (blended_proficiency 1 0 2) 2 = 2"
    by (rule rev_mp)
  from e s example_blends(3,4,5) show ?thesis by (simp only:)
qed

text \<open>
  The claim C4 as written fails where it says that ties favor staying: with a predictor
  answer of 1, a performance score of 0 and the current ordinal 1, the blend equals the
  move-up threshold \<open>1 * 0.7\<close> and the result is 2.
\<close>

theorem move_up_tie_counterexample:
  "blended_proficiency 1 0 1 = fl (of_int 1 * fl 0.7)
   \<and> determine_next_difficulty (blended_proficiency 1 0 1) 1 = 2
   \<and> determine_next_difficulty (blended_proficiency 1 0 1) 1 \<noteq> 1"
  using example_blends(1,2) by simp

text \<open>
  The whole path on concrete inputs: the dictionary built from a history of four
  records, and the spec's example (0.9, 15 seconds, 0.8, "intermediate") with a
  predictor that answers 0.75, which ends at "beginner".
\<close>

lemma example_current_performance:
  "estimate_current_performance 0.5 3 (Some example_history) =
     \<lparr>pd_correct_ratio = Some 0.5, pd_avg_response_time = Some 30,
      pd_confidence_score = None, pd_difficulty = Some ''advanced'', pd_timestamp = None,
      pd_question_count = Some 18, pd_streak = Some 2\<rparr>"
  by (simp add: estimate_current_performance_def example_history_def record_of_def
        empty_performance_def get_or_def difficulty_names_def difficulty_levels_def Let_def)

lemma example_next_step:
  "determine_next_difficulty
     (blended_proficiency 0.75 (calculate_performance_score (fl 0.9) 15 (fl 0.8)) 2) 2 = 1"
  by code_simp

lemma example_next_difficulty:
  "fst (calculate_next_difficulty example_clock steady_torch fresh_predictor ''u1'' ''algebra''
          (empty_performance
             \<lparr>pd_correct_ratio := Some (fl 0.9), pd_avg_response_time := Some 15,
              pd_confidence_score := Some (fl 0.8), pd_difficulty := Some ''intermediate''\<rparr>)
          None) = Inr ''beginner''"
proof -
  let ?cur = "empty_performance
             \<lparr>pd_correct_ratio := Some (fl 0.9), pd_avg_response_time := Some 15,
              pd_confidence_score := Some (fl 0.8), pd_difficulty := Some ''intermediate''\<rparr>"
  let ?ps = "calculate_performance_score (fl 0.9) 15 (fl 0.8)"
  have ps: "?ps = calculate_performance_score (get_or (pd_correct_ratio ?cur) 0.5)
                  (get_or (pd_avg_response_time ?cur) 30) (get_or (pd_confidence_score ?cur) 0.5)"
    by (simp add: get_or_def)
  have c: "2 = get_or (map_of difficulty_levels (get_or (pd_difficulty ?cur) ''intermediate'')) 2"
    by (simp add: get_or_def difficulty_levels_def)
  have answer: "fst (predict_proficiency example_clock steady_torch fresh_predictor ''u1''
                       ''algebra'' (estimate_current_performance ?ps 2 None) None)
                  = Inr 0.75"
    by (simp add: predict_proficiency_def predict_proficiency_try_def load_model_def
          steady_torch_def fresh_predictor_def Let_def)
  have name: "get_or (map_of difficulty_names 1) ''intermediate'' = ''beginner''"
    by (simp add: get_or_def difficulty_names_def difficulty_levels_def)
  from calculate_next_difficulty_result [OF ps c, of example_clock steady_torch
      fresh_predictor "''u1''" "''algebra''" None]
  obtain m predictor' where
    p: "predict_proficiency example_clock steady_torch fresh_predictor ''u1'' ''algebra''
          (estimate_current_performance ?ps 2 None) None = (Inr m, predictor')" and
    r: "calculate_next_difficulty example_clock steady_torch fresh_predictor ''u1''
          ''algebra'' ?cur None
        = (Inr (get_or (map_of difficulty_names
                          (determine_next_difficulty (blended_proficiency m ?ps 2) 2))
                  ''intermediate''),
           predictor')"
    by blast
  from p answer have m: "m = 0.75" by simp
  have "fst (calculate_next_difficulty example_clock steady_torch fresh_predictor ''u1''
               ''algebra'' ?cur None)
        = Inr (get_or (map_of difficulty_names
                         (determine_next_difficulty (blended_proficiency 0.75 ?ps 2) 2))
                 ''intermediate'')"
    unfolding r m by (rule fst_conv)
  then show ?thesis unfolding example_next_step name .
qed

section \<open>Properties of ColdStartSolver\<close>

subsection \<open>Slices, sorting and dictionary keys\<close>

lemma slice_to_subset: "set (slice_to n xs) \<subseteq> set xs"
  by (simp add: slice_to_def set_take_subset)

lemma set_sorted_desc: "set (sorted_desc k xs) = set xs"
  by (simp add: sorted_desc_def)

text \<open>
  A loop that inserts into a dictionary the keys of its input that are not skipped
  yields no other keys.
\<close>

lemma keys_fold_update_subset:
  "fst ` set (fold (\<lambda>(u, x) acc. if skip u then acc else AList.update u (g x) acc) xs acc0)
     \<subseteq> fst ` set acc0 \<union> {u \<in> fst ` set xs. \<not> skip u}"
proof (induction xs arbitrary: acc0)
  case Nil
  show ?case by simp
next
  case (Cons a xs)
  obtain u x where a: "a = (u, x)" by (cases a)
  let ?f = "\<lambda>(u, x) acc. if skip u then acc else AList.update u (g x) acc"
  show ?case
  proof (cases "skip u")
    case True
    have e: "fold ?f (a # xs) acc0 = fold ?f xs acc0"
      by (simp add: a True)
    have "fst ` set (fold ?f xs acc0) \<subseteq> fst ` set acc0 \<union> {v \<in> fst ` set xs. \<not> skip v}"
      by (rule Cons.IH)
    also have "\<dots> \<subseteq> fst ` set acc0 \<union> {v \<in> fst ` set (a # xs). \<not> skip v}"
      by auto
    finally show ?thesis unfolding e .
  next
    case False
    have e: "fold ?f (a # xs) acc0 = fold ?f xs (AList.update u (g x) acc0)"
      by (simp add: a False)
    have "fst ` set (fold ?f xs (AList.update u (g x) acc0))
            \<subseteq> fst ` set (AList.update u (g x) acc0) \<union> {v \<in> fst ` set xs. \<not> skip v}"
      by (rule Cons.IH)
    also have "\<dots> = ({u} \<union> fst ` set acc0) \<union> {v \<in> fst ` set xs. \<not> skip v}"
      by (simp only: dom_update)
    also have "\<dots> \<subseteq> fst ` set acc0 \<union> {v \<in> fst ` set (a # xs). \<not> skip v}"
      using False by (auto simp: a)
    finally show ?thesis unfolding e .
  qed
qed

subsection \<open>Similar users\<close>

text \<open>The lookup evaluated on a store of five users with equal feature vectors.\<close>

lemma sorted_domain_keys_eq:
  "sorted_domain_keys = [''humanities'', ''languages'', ''mathematics'', ''science'', ''technology'']"
  by (simp add: sorted_domain_keys_def knowledge_domains_def)

lemma example_feature_vector_renamed: "user_feature_vector (example_profile\<lparr>pr_user_id := u\<rparr>) = [2, 2, 2, 2, 2, 0, 0, 0, 0, 0]"
  by (simp add: user_feature_vector_def sorted_domain_keys_eq example_profile_def get_or_def
        difficulty_to_number_def)

lemma example_feature_vector: "user_feature_vector example_profile = [2, 2, 2, 2, 2, 0, 0, 0, 0, 0]"
  by (simp add: user_feature_vector_def sorted_domain_keys_eq example_profile_def get_or_def
        difficulty_to_number_def)

lemma example_cosine: "calculate_cosine_similarity [2, 2, 2, 2, 2, 0, 0, 0, 0, 0] [2, 2, 2, 2, 2, 0, 0, 0, 0, 0] = 1"
  by (simp add: calculate_cosine_similarity_def)

lemma five_users_similar:
  "get_similar_users five_users ''u1'' 2 = [''u2'', ''u3'']"
  by (simp add: get_similar_users_def five_users_def load_user_profile_def
        example_feature_vector_renamed example_feature_vector example_cosine
        slice_to_def sorted_desc_def)

text \<open>
  C10. Whatever the profile store holds, the list returned by \<open>get_similar_users\<close>
  never contains the queried user id: the loop over \<open>self.user_profiles\<close> skips it
  before any similarity is computed.
\<close>

theorem similar_users_exclude_self: "uid \<notin> set (get_similar_users self uid n)"
proof (cases "load_user_profile self uid")
  case None
  then show ?thesis by (simp add: get_similar_users_def)
next
  case (Some prof)
  define feats where "feats =
    fold (\<lambda>(u, uprof) acc. if u = uid then acc
                            else AList.update u (user_feature_vector uprof) acc)
      (user_profiles self) []"
  define sims where "sims =
    fold (\<lambda>(u, features) acc.
            AList.update u (calculate_cosine_similarity (user_feature_vector prof) features) acc)
      feats []"
  have res: "get_similar_users self uid n =
      (if length (user_profiles self) < 5 then []
       else map fst (slice_to n (sorted_desc snd sims)))"
    unfolding get_similar_users_def Some feats_def sims_def by (simp add: Let_def)
  have k1: "fst ` set feats \<subseteq> fst ` set ([] :: (string \<times> real list) list) \<union> {u \<in> fst ` set (user_profiles self). \<not> u = uid}"
    unfolding feats_def
    by (rule keys_fold_update_subset [of "\<lambda>u. u = uid" user_feature_vector "user_profiles self" "[]"])
  have "sims = fold (\<lambda>(u, features) acc. if False then acc else
            AList.update u (calculate_cosine_similarity (user_feature_vector prof) features) acc)
      feats []"
    unfolding sims_def by simp
  then have k2: "fst ` set sims \<subseteq> fst ` set ([] :: (string \<times> real) list) \<union> {u \<in> fst ` set feats. \<not> False}"
    using keys_fold_update_subset [of "\<lambda>u. False"
        "calculate_cosine_similarity (user_feature_vector prof)" feats "[]"]
    by (simp only:)
  have k3: "set (map fst (slice_to n (sorted_desc snd sims))) \<subseteq> fst ` set sims"
    using slice_to_subset [of n "sorted_desc snd sims"] by (auto simp: set_sorted_desc)
  have "uid \<notin> fst ` set sims"
  proof
    assume "uid \<in> fst ` set sims"
    with k2 have "uid \<in> fst ` set feats" by auto
    with k1 have "uid \<in> {u \<in> fst ` set (user_profiles self). u \<noteq> uid}" by auto
    then show False by simp
  qed
  with k3 have "uid \<notin> set (map fst (slice_to n (sorted_desc snd sims)))"
    by blast
  then show ?thesis
    unfolding res by simp
qed

theorem similar_users_exclude_self_witness:
  "get_similar_users five_users ''u1'' 2 = [''u2'', ''u3'']
   \<and> ''u1'' \<notin> set (get_similar_users five_users ''u1'' 2)"
  using similar_users_exclude_self [of "''u1''" five_users 2] five_users_similar
  by simp

subsection \<open>Updating a profile with a quiz result\<close>

text \<open>
  The two difficulty steps in terms of \<open>_difficulty_to_number\<close>, the adjustment of one
  domain, and what \<open>update_profile_with_quiz\<close> returns and stores.
\<close>

lemma number_increase:
  "difficulty_to_number (increase_difficulty d) = min 3 (difficulty_to_number d + 1)"
  by (simp add: difficulty_to_number_def increase_difficulty_def get_or_def)

lemma number_decrease:
  "difficulty_to_number (decrease_difficulty d) = max 1 (difficulty_to_number d - 1)"
  by (simp add: difficulty_to_number_def decrease_difficulty_def get_or_def)

lemma adjust_up:
  "map_of dd domain = Some cur \<Longrightarrow> score > 80 \<Longrightarrow> d = cur \<Longrightarrow>
     map_of (adjust_domain_difficulty domain score d dd) domain = Some (increase_difficulty cur)"
  by (simp add: adjust_domain_difficulty_def update_conv')

lemma adjust_down:
  "map_of dd domain = Some cur \<Longrightarrow> score < 40 \<Longrightarrow> d = cur \<Longrightarrow>
     map_of (adjust_domain_difficulty domain score d dd) domain = Some (decrease_difficulty cur)"
  by (simp add: adjust_domain_difficulty_def update_conv')

lemma adjust_same:
  "map_of dd domain = Some cur \<Longrightarrow> \<not> (score > 80 \<and> d = cur) \<Longrightarrow> \<not> (score < 40 \<and> d = cur) \<Longrightarrow>
     adjust_domain_difficulty domain score d dd = dd"
  by (auto simp add: adjust_domain_difficulty_def)

lemma adjust_absent:
  "map_of dd domain = None \<Longrightarrow> adjust_domain_difficulty domain score d dd = dd"
  by (simp add: adjust_domain_difficulty_def)

lemma adjust_other:
  "other \<noteq> domain \<Longrightarrow>
     map_of (adjust_domain_difficulty domain score d dd) other = map_of dd other"
  by (simp add: adjust_domain_difficulty_def update_conv' split: option.split)

lemma adjust_keys:
  "map fst (adjust_domain_difficulty domain score d dd) = map fst dd"
  by (auto simp add: adjust_domain_difficulty_def update_keys split: option.split
        dest: map_of_SomeD intro: rev_image_eqI)

lemma update_fields:
  assumes "load_user_profile self uid = Some prof"
  shows "\<exists>prof'. fst (update_profile_with_quiz w self uid quiz) = Some prof'
           \<and> pr_domain_difficulties prof' =
               adjust_domain_difficulty (map_topic_to_domain (get_or (qr_topic quiz) ''general''))
                 (get_or (qr_score quiz) 0) (get_or (qr_difficulty quiz) ''intermediate'')
                 (pr_domain_difficulties prof)
           \<and> pr_profile_confidence prof' = min 0.95 (pr_profile_confidence prof + 0.05)
           \<and> length (pr_quiz_history prof') = Suc (length (pr_quiz_history prof))"
  using assms by (simp add: update_profile_with_quiz_def Let_def)



lemma algebra_domain: "map_topic_to_domain ''algebra'' = ''mathematics''"
  by (simp add: map_topic_to_domain_def knowledge_domains_def lower_def lower_char_def get_or_def)

text \<open>
  C6. For a stored profile and a quiz whose topic maps to a domain of the profile's
  \<open>domain_difficulties\<close>: with a score above 80 and the quiz's difficulty equal to the
  domain's current difficulty, the domain's difficulty goes up one step (ordinal plus
  one, at most 3); with a score below 40 under the same equality, it goes down one step
  (ordinal minus one, at least 1); in every other case the dictionary is unchanged. The
  other domains keep their difficulty and the keys stay the same.
\<close>

theorem update_profile_domain_difficulty:
  assumes "load_user_profile self uid = Some prof"
      and "domain = map_topic_to_domain (get_or (qr_topic quiz) ''general'')"
      and "score = get_or (qr_score quiz) 0"
      and "difficulty = get_or (qr_difficulty quiz) ''intermediate''"
      and "map_of (pr_domain_difficulties prof) domain = Some current"
  shows "\<exists>prof'. fst (update_profile_with_quiz w self uid quiz) = Some prof'
           \<and> (if score > 80 \<and> difficulty = current
                then map_of (pr_domain_difficulties prof') domain
                       = Some (increase_difficulty current)
                  \<and> difficulty_to_number (increase_difficulty current)
                       = min 3 (difficulty_to_number current + 1)
                else if score < 40 \<and> difficulty = current
                then map_of (pr_domain_difficulties prof') domain
                       = Some (decrease_difficulty current)
                  \<and> difficulty_to_number (decrease_difficulty current)
                       = max 1 (difficulty_to_number current - 1)
                else pr_domain_difficulties prof' = pr_domain_difficulties prof)
           \<and> (\<forall>other. other \<noteq> domain \<longrightarrow>
                  map_of (pr_domain_difficulties prof') other
                    = map_of (pr_domain_difficulties prof) other)
           \<and> map fst (pr_domain_difficulties prof') = map fst (pr_domain_difficulties prof)"
proof -
  from update_fields [OF assms(1), of w quiz] obtain prof' where
    res: "fst (update_profile_with_quiz w self uid quiz) = Some prof'" and
    dd: "pr_domain_difficulties prof' =
           adjust_domain_difficulty domain score difficulty (pr_domain_difficulties prof)"
    unfolding assms(2,3,4) by blast
  have rule: "if score > 80 \<and> difficulty = current
        then map_of (pr_domain_difficulties prof') domain = Some (increase_difficulty current)
          \<and> difficulty_to_number (increase_difficulty current)
               = min 3 (difficulty_to_number current + 1)
        else if score < 40 \<and> difficulty = current
        then map_of (pr_domain_difficulties prof') domain = Some (decrease_difficulty current)
          \<and> difficulty_to_number (decrease_difficulty current)
               = max 1 (difficulty_to_number current - 1)
        else pr_domain_difficulties prof' = pr_domain_difficulties prof"
  proof (cases "score > 80 \<and> difficulty = current")
    case True
    then have "map_of (pr_domain_difficulties prof') domain = Some (increase_difficulty current)"
      using adjust_up [OF assms(5), of score difficulty] by (simp add: dd)
    then show ?thesis
      unfolding if_P [OF True] using number_increase [of current] by simp
  next
    case up: False
    show ?thesis
    proof (cases "score < 40 \<and> difficulty = current")
      case True
      then have "map_of (pr_domain_difficulties prof') domain = Some (decrease_difficulty current)"
        using adjust_down [OF assms(5), of score difficulty] by (simp add: dd)
      then show ?thesis
        unfolding if_not_P [OF up] if_P [OF True] using number_decrease [of current] by simp
    next
      case False
      have "pr_domain_difficulties prof' = pr_domain_difficulties prof"
        unfolding dd by (rule adjust_same [OF assms(5) up False])
      then show ?thesis
        unfolding if_not_P [OF up] if_not_P [OF False] .
    qed
  qed
  have others: "\<forall>other. other \<noteq> domain \<longrightarrow>
      map_of (pr_domain_difficulties prof') other = map_of (pr_domain_difficulties prof) other"
    by (simp add: dd adjust_other)
  have keys: "map fst (pr_domain_difficulties prof') = map fst (pr_domain_difficulties prof)"
    by (simp add: dd adjust_keys)
  from res rule others keys show ?thesis by blast
qed

theorem update_profile_domain_difficulty_witness:
  "map_option (\<lambda>p. map_of (pr_domain_difficulties p) ''mathematics'')
     (fst (update_profile_with_quiz example_world example_solver ''u1''
             (quiz_of ''algebra'' 85 ''intermediate''))) = Some (Some ''advanced'')
   \<and> map_option (\<lambda>p. map_of (pr_domain_difficulties p) ''mathematics'')
     (fst (update_profile_with_quiz example_world example_solver ''u1''
             (quiz_of ''algebra'' 30 ''intermediate''))) = Some (Some ''beginner'')
   \<and> map_option pr_domain_difficulties
     (fst (update_profile_with_quiz example_world example_solver ''u1''
             (quiz_of ''algebra'' 85 ''advanced''))) = Some [(''mathematics'', ''intermediate'')]"
proof -
  have l: "load_user_profile example_solver ''u1'' = Some example_profile"
    by (simp add: load_user_profile_def example_solver_def)
  have c: "map_of (pr_domain_difficulties example_profile) ''mathematics'' = Some ''intermediate''"
    by (simp add: example_profile_def)
  have d: "''mathematics'' = map_topic_to_domain (get_or (qr_topic (quiz_of ''algebra'' s k)) ''general'')"
    for s k
    by (simp add: quiz_of_def get_or_def algebra_domain)
  have sc: "s = get_or (qr_score (quiz_of ''algebra'' s k)) 0" for s k
    by (simp add: quiz_of_def get_or_def)
  have di: "k = get_or (qr_difficulty (quiz_of ''algebra'' s k)) ''intermediate''" for s k
    by (simp add: quiz_of_def get_or_def)
  have up: "increase_difficulty ''intermediate'' = ''advanced''"
    by (simp add: increase_difficulty_def)
  have down: "decrease_difficulty ''intermediate'' = ''beginner''"
    by (simp add: decrease_difficulty_def)
  have dd0: "pr_domain_difficulties example_profile = [(''mathematics'', ''intermediate'')]"
    by (simp add: example_profile_def)
  from update_profile_domain_difficulty [OF l d [of 85 "''intermediate''"] sc [of 85 "''intermediate''"] di [of "''intermediate''" 85] c,
      where w = example_world]
  have a: "map_option (\<lambda>p. map_of (pr_domain_difficulties p) ''mathematics'')
     (fst (update_profile_with_quiz example_world example_solver ''u1''
             (quiz_of ''algebra'' 85 ''intermediate''))) = Some (Some ''advanced'')"
    by (auto simp: up)
  from update_profile_domain_difficulty [OF l d [of 30 "''intermediate''"] sc [of 30 "''intermediate''"] di [of "''intermediate''" 30] c,
      where w = example_world]
  have b: "map_option (\<lambda>p. map_of (pr_domain_difficulties p) ''mathematics'')
     (fst (update_profile_with_quiz example_world example_solver ''u1''
             (quiz_of ''algebra'' 30 ''intermediate''))) = Some (Some ''beginner'')"
    by (auto simp: down)
  from update_profile_domain_difficulty [OF l d [of 85 "''advanced''"] sc [of 85 "''advanced''"] di [of "''advanced''" 85] c,
      where w = example_world]
  have e: "map_option pr_domain_difficulties
     (fst (update_profile_with_quiz example_world example_solver ''u1''
             (quiz_of ''algebra'' 85 ''advanced''))) = Some [(''mathematics'', ''intermediate'')]"
    by (auto simp: dd0)
  from a b e show ?thesis by simp
qed

subsection \<open>Profile confidence\<close>










section \<open>Properties of RecommendationSystem\<close>

text \<open>
  \<open>recommend_content_for_new_user\<close> by the kind of its third argument: a list makes the
  comparison \<open>len(relevant_docs) < n_recommendations\<close> raise; a non-negative integer
  bounds the length of the result. Without a stored profile \<open>get_recommendations\<close>
  returns the empty list.
\<close>

lemma recommend_with_list_raises:
  "load_user_profile self uid = Some prof \<Longrightarrow>
     recommend_content_for_new_user self uid docs (PyList quizzes) = Inl TypeError"
  by (simp add: recommend_content_for_new_user_def Let_def)

lemma recommend_with_int_bounded:
  assumes "recommend_content_for_new_user self uid docs (PyInt n) = Inr result" "0 \<le> n"
  shows "length result \<le> nat n"
proof (cases "load_user_profile self uid")
  case None
  with assms show ?thesis by (simp add: recommend_content_for_new_user_def)
next
  case (Some prof)
  with assms(1) obtain xs :: "(document \<times> real) list" where
    "result = map fst (slice_to n xs)"
    by (auto simp add: recommend_content_for_new_user_def Let_def)
  with assms(2) show ?thesis by (simp add: slice_to_def)
qed

lemma recommend_without_profile:
  "load_user_profile self uid = None \<Longrightarrow>
     get_recommendations four_strategies self uid content n = Inr []"
  by (simp add: get_recommendations_def recommend_content_for_new_user_def slice_to_def)

text \<open>
  C2 (what the code does). For a user whose stored profile has fewer than three quiz
  entries, \<open>get_recommendations\<close> takes the cold-start branch and never the
  four-strategy path, but it passes \<open>quiz_history\<close> in the position of
  \<open>n_recommendations\<close>, so the call raises \<open>TypeError\<close> instead of returning a list of
  at most \<open>n_recommendations\<close> items.
\<close>

theorem limited_history_raises_type_error:
  assumes "load_user_profile cold_start uid = Some prof"
      and "length (pr_quiz_history prof) < 3"
  shows "get_recommendations four_strategies cold_start uid available_content n = Inl TypeError"
  using assms recommend_with_list_raises [OF assms(1), of available_content "pr_quiz_history prof"]
  by (simp add: get_recommendations_def Let_def)

theorem limited_history_raises_type_error_witness:
  "get_recommendations no_blend example_solver ''u1'' [example_document] 5 = Inl TypeError"
proof -
  have l: "load_user_profile example_solver ''u1'' = Some example_profile"
    by (simp add: load_user_profile_def example_solver_def)
  have h: "length (pr_quiz_history example_profile) < 3"
    by (simp add: example_profile_def)
  from limited_history_raises_type_error [OF l h] show ?thesis .
qed

end
